theory Spec2Isabelle
  imports Complex_Main
begin

section \<open>Tensors\<close>

text \<open>
  The network computes on float32 tensors. The embedding idealises the entries as real
  numbers: a rank-1 tensor is a list of reals, a rank-2 tensor (a batch, one row per
  sample) a list of rows. Rounding, overflow and NaN are outside the embedding.
\<close>

type_synonym vec = "real list"
type_synonym matrix = "vec list"

definition K_exp :: "matrix \<Rightarrow> matrix" where
  "K_exp t = map (map exp) t"

definition K_square :: "matrix \<Rightarrow> matrix" where
  "K_square t = map (map (\<lambda>x. x * x)) t"

definition t_add :: "matrix \<Rightarrow> matrix \<Rightarrow> matrix" where
  "t_add a b = map2 (map2 (+)) a b"

definition t_sub :: "matrix \<Rightarrow> matrix \<Rightarrow> matrix" where
  "t_sub a b = map2 (map2 (-)) a b"

definition t_sub_scalar :: "matrix \<Rightarrow> real \<Rightarrow> matrix" where
  "t_sub_scalar a c = map (map (\<lambda>x. x - c)) a"

definition K_sum_axis1 :: "matrix \<Rightarrow> vec" where
  "K_sum_axis1 t = map sum_list t"

definition v_scale :: "real \<Rightarrow> vec \<Rightarrow> vec" where
  "v_scale c v = map (\<lambda>x. c * x) v"

definition v_add :: "vec \<Rightarrow> vec \<Rightarrow> vec" where
  "v_add a b = map2 (+) a b"

definition K_mean :: "vec \<Rightarrow> real" where
  "K_mean v = sum_list v / real (length v)"

section \<open>The loss of \<open>_loss_function\<close>\<close>

text \<open>
  \<^verbatim>\<open>kl_loss = 0.5 * K.sum(K.exp(self.log_var) + K.square(self.mu) - 1. - self.log_var, axis=1)\<close>
\<close>

definition kl_loss :: "matrix \<Rightarrow> matrix \<Rightarrow> vec" where
  "kl_loss mu log_var =
     v_scale 0.5
       (K_sum_axis1 (t_sub (t_sub_scalar (t_add (K_exp log_var) (K_square mu)) 1) log_var))"

text \<open>
  \<^verbatim>\<open>recon_loss = 0.5 * K.sum(tf.square((y_true - y_pred)), axis=1)\<close>
\<close>

definition recon_loss :: "matrix \<Rightarrow> matrix \<Rightarrow> vec" where
  "recon_loss y_true y_pred = v_scale 0.5 (K_sum_axis1 (K_square (t_sub y_true y_pred)))"

text \<open>
  \<^verbatim>\<open>return K.mean(recon_loss + 0.001 * kl_loss)\<close>; \<open>mu\<close> and \<open>log_var\<close> are the
  encoder outputs the closure reads from \<open>self\<close>.
\<close>

definition vae_loss :: "matrix \<Rightarrow> matrix \<Rightarrow> matrix \<Rightarrow> matrix \<Rightarrow> real" where
  "vae_loss mu log_var y_true y_pred =
     K_mean (v_add (recon_loss y_true y_pred) (v_scale 0.001 (kl_loss mu log_var)))"

text \<open>
  The objective in the words of the specification, written with indexed sums over the
  \<open>n\<close> samples, the \<open>x_dim\<close> features and the \<open>z_dim\<close> latent dimensions.
\<close>

definition spec_recon :: "nat \<Rightarrow> matrix \<Rightarrow> matrix \<Rightarrow> nat \<Rightarrow> real" where
  "spec_recon xd y_true y_pred i =
     (\<Sum>j<xd. (y_true ! i ! j - y_pred ! i ! j)\<^sup>2) / 2"

definition spec_kl :: "nat \<Rightarrow> matrix \<Rightarrow> matrix \<Rightarrow> nat \<Rightarrow> real" where
  "spec_kl zd mu log_var i =
     (\<Sum>j<zd. exp (log_var ! i ! j) + (mu ! i ! j)\<^sup>2 - 1 - log_var ! i ! j) / 2"

definition spec_loss :: "nat \<Rightarrow> nat \<Rightarrow> nat \<Rightarrow> matrix \<Rightarrow> matrix \<Rightarrow> matrix \<Rightarrow> matrix \<Rightarrow> real" where
  "spec_loss n xd zd mu log_var y_true y_pred =
     (\<Sum>i<n. spec_recon xd y_true y_pred i + 0.001 * spec_kl zd mu log_var i) / real n"

definition has_shape :: "nat \<Rightarrow> nat \<Rightarrow> matrix \<Rightarrow> bool" where
  "has_shape n d t = (length t = n \<and> list_all (\<lambda>r. length r = d) t)"

section \<open>Python values and errors\<close>

text \<open>
  Every \<^verbatim>\<open>raise\<close> of the source and every failure of a library call the source makes
  is a value. \<open>PyException\<close> is the plain \<^verbatim>\<open>Exception(msg)\<close> that \<^verbatim>\<open>predict\<close> and
  \<^verbatim>\<open>train\<close> raise themselves; the other constructors are the Python exception classes
  of attribute access, indexing, numpy, Keras and the file system. A failure inside
  \<^verbatim>\<open>balancer\<close>, \<^verbatim>\<open>extractor\<close> or \<^verbatim>\<open>shuffle_data\<close> (module \<^verbatim>\<open>.util\<close>) is a
  \<open>CollaboratorError\<close>, a scipy sparse batch that Keras refuses a \<open>KerasError\<close>. \<open>NaNResult\<close> is no exception: numpy averages an empty batch to
  NaN with a warning, which real-valued entries cannot carry, so the embedding stops there.
\<close>

datatype error =
    PyException string
  | AttributeError string
  | KeyError string
  | IndexError string
  | ValueError string
  | RuntimeError string
  | OSError string
  | CollaboratorError string
  | KerasError string
  | NaNResult

definition and_then :: "error + 'a \<Rightarrow> ('a \<Rightarrow> error + 'b) \<Rightarrow> error + 'b" where
  "and_then r f = (case r of Inl e \<Rightarrow> Inl e | Inr v \<Rightarrow> f v)"

text \<open>numpy arrays of rank 1 to 3, and what \<^verbatim>\<open>Model.predict\<close> accepts as a batch.\<close>

datatype ndarray = A1 vec | A2 matrix | A3 "matrix list"

datatype kinput = KSparse matrix | KDense ndarray

text \<open>The \<^verbatim>\<open>.X\<close> of an AnnData: a scipy sparse matrix or a numpy array, of rank 2.\<close>

datatype xmat = SparseX matrix | DenseX matrix

fun rows_of :: "xmat \<Rightarrow> matrix" where
  "rows_of (SparseX m) = m"
| "rows_of (DenseX m) = m"

fun issparse :: "xmat \<Rightarrow> bool" where
  "issparse (SparseX m) = True"
| "issparse (DenseX m) = False"

text \<open>
  \<^verbatim>\<open>X.A\<close>: a scipy sparse matrix converts to a dense array; a numpy array has no
  attribute \<^verbatim>\<open>A\<close>.
\<close>

fun dot_A :: "xmat \<Rightarrow> error + matrix" where
  "dot_A (SparseX m) = Inr m"
| "dot_A (DenseX m) = Inl (AttributeError ''A'')"

text \<open>
  An annotated dataset: the matrix, its number of variables (\<^verbatim>\<open>shape[1]\<close>) and the
  columns of \<^verbatim>\<open>obs\<close>, each holding one label per row.
\<close>

record adata =
  X :: xmat
  n_vars :: nat
  obs :: "(string \<times> string list) list"

section \<open>numpy\<close>

text \<open>
  \<^verbatim>\<open>m.mean(axis=0)\<close> and \<^verbatim>\<open>numpy.average(m, axis=0)\<close> of a rank-2 array: the mean of
  every column. The width of an array with rows is the length of its first row.
\<close>

definition column :: "matrix \<Rightarrow> nat \<Rightarrow> vec" where
  "column m j = map (\<lambda>r. r ! j) m"

definition mean_axis0 :: "matrix \<Rightarrow> error + vec" where
  "mean_axis0 m =
     (case m of
        [] \<Rightarrow> Inl NaNResult
      | r # rs \<Rightarrow> Inr (map (\<lambda>j. sum_list (column m j) / real (length m)) [0..<length r]))"

text \<open>\<^verbatim>\<open>v.reshape((1, k))\<close> of a rank-1 array.\<close>

definition reshape_row :: "vec \<Rightarrow> nat \<Rightarrow> error + matrix" where
  "reshape_row v k =
     (if length v = k then Inr [v] else Inl (ValueError ''cannot reshape array''))"

text \<open>
  Broadcasting of a binary operation along one axis: equal lengths pair up, a length of 1
  is stretched, anything else fails.
\<close>

fun sequence :: "(error + 'a) list \<Rightarrow> error + 'a list" where
  "sequence [] = Inr []"
| "sequence (r # rs) =
     (case r of
        Inl e \<Rightarrow> Inl e
      | Inr v \<Rightarrow> (case sequence rs of Inl e \<Rightarrow> Inl e | Inr vs \<Rightarrow> Inr (v # vs)))"

definition broadcast :: "('a \<Rightarrow> 'b \<Rightarrow> error + 'c) \<Rightarrow> 'a list \<Rightarrow> 'b list \<Rightarrow> error + 'c list" where
  "broadcast f a b =
     (if length a = length b then sequence (map2 f a b)
      else if length a = 1 then sequence (map (f (hd a)) b)
      else if length b = 1 then sequence (map (\<lambda>x. f x (hd b)) a)
      else Inl (ValueError ''operands could not be broadcast together''))"

definition bc1 :: "(real \<Rightarrow> real \<Rightarrow> real) \<Rightarrow> vec \<Rightarrow> vec \<Rightarrow> error + vec" where
  "bc1 f = broadcast (\<lambda>x y. Inr (f x y))"

definition bc2 :: "(real \<Rightarrow> real \<Rightarrow> real) \<Rightarrow> matrix \<Rightarrow> matrix \<Rightarrow> error + matrix" where
  "bc2 f = broadcast (bc1 f)"

definition bc3 :: "(real \<Rightarrow> real \<Rightarrow> real) \<Rightarrow> matrix list \<Rightarrow> matrix list \<Rightarrow> error + matrix list" where
  "bc3 f = broadcast (bc2 f)"

text \<open>
  An elementwise binary operation of two arrays: the array of lower rank gets leading
  axes of length 1, then every axis is broadcast.
\<close>

fun np_binop :: "(real \<Rightarrow> real \<Rightarrow> real) \<Rightarrow> ndarray \<Rightarrow> ndarray \<Rightarrow> error + ndarray" where
  "np_binop f (A1 a) (A1 b) = and_then (bc1 f a b) (\<lambda>r. Inr (A1 r))"
| "np_binop f (A1 a) (A2 b) = and_then (bc2 f [a] b) (\<lambda>r. Inr (A2 r))"
| "np_binop f (A2 a) (A1 b) = and_then (bc2 f a [b]) (\<lambda>r. Inr (A2 r))"
| "np_binop f (A2 a) (A2 b) = and_then (bc2 f a b) (\<lambda>r. Inr (A2 r))"
| "np_binop f (A1 a) (A3 b) = and_then (bc3 f [[a]] b) (\<lambda>r. Inr (A3 r))"
| "np_binop f (A3 a) (A1 b) = and_then (bc3 f a [[b]]) (\<lambda>r. Inr (A3 r))"
| "np_binop f (A2 a) (A3 b) = and_then (bc3 f [a] b) (\<lambda>r. Inr (A3 r))"
| "np_binop f (A3 a) (A2 b) = and_then (bc3 f a [b]) (\<lambda>r. Inr (A3 r))"
| "np_binop f (A3 a) (A3 b) = and_then (bc3 f a b) (\<lambda>r. Inr (A3 r))"

text \<open>
  \<^verbatim>\<open>numpy.random.choice(range(n), size=k, replace=False)\<close>: the drawn indices are a
  parameter of the embedding; numpy fails when more are asked for than there are.
\<close>

definition is_choice :: "nat \<Rightarrow> nat \<Rightarrow> nat list \<Rightarrow> bool" where
  "is_choice n k ind = (length ind = k \<and> distinct ind \<and> list_all (\<lambda>i. i < n) ind)"

definition random_choice :: "nat \<Rightarrow> nat \<Rightarrow> nat list \<Rightarrow> error + nat list" where
  "random_choice n k ind =
     (if n < k then Inl (ValueError ''Cannot take a larger sample than population'')
      else Inr ind)"

text \<open>\<^verbatim>\<open>m[ind, :]\<close>: the rows at the given indices.\<close>

definition take_rows :: "matrix \<Rightarrow> nat list \<Rightarrow> matrix" where
  "take_rows m ind = map (\<lambda>i. m ! i) ind"

text \<open>\<^verbatim>\<open>numpy.linspace(0, 1, n)\<close>.\<close>

definition linspace01 :: "nat \<Rightarrow> vec" where
  "linspace01 n = (if n = 1 then [0] else map (\<lambda>i. real i / real (n - 1)) [0..<n])"


section \<open>The network\<close>

text \<open>
  A \<^verbatim>\<open>Dense(units)\<close> layer: \<open>x \<cdot> kernel + bias\<close>, a row of \<open>units\<close> entries.
\<close>

record dense =
  units :: nat
  kernel :: matrix
  bias :: vec

definition dense_apply :: "dense \<Rightarrow> vec \<Rightarrow> vec" where
  "dense_apply d x =
     map (\<lambda>j. sum_list (map (\<lambda>i. x ! i * kernel d ! i ! j) [0..<length x]) + bias d ! j)
       [0..<units d]"

text \<open>
  The layers of \<^verbatim>\<open>_create_network\<close>, as \<^verbatim>\<open>Model.predict\<close> runs them (dropout is off,
  batch normalisation uses its moving statistics, so a row is mapped on its own).
  \<open>enc_hidden\<close> stands for the two blocks \<^verbatim>\<open>Dense(800)\<close>, \<^verbatim>\<open>BatchNormalization\<close>,
  \<^verbatim>\<open>LeakyReLU\<close>, \<^verbatim>\<open>Dropout\<close> of \<^verbatim>\<open>_encoder\<close>, \<open>dec_hidden\<close> for those of
  \<^verbatim>\<open>_decoder\<close>; \<open>in_dim\<close> is the width of \<^verbatim>\<open>Input(shape=(x_dimension,))\<close>.
\<close>

record network =
  in_dim :: nat
  enc_hidden :: "vec \<Rightarrow> vec"
  mean_layer :: dense
  log_var_layer :: dense
  dec_hidden :: "vec \<Rightarrow> vec"
  out_layer :: dense

text \<open>The model that \<^verbatim>\<open>restore_model\<close> builds from \<^verbatim>\<open>Input(shape=(self.z_dim,))\<close>.\<close>

record decoder =
  dec_in :: nat
  hidden :: "vec \<Rightarrow> vec"
  out :: dense

text \<open>
  The outputs of \<^verbatim>\<open>self.encoder_model\<close>: \<^verbatim>\<open>[self.mu, self.log_var, self.z]\<close> as
  \<^verbatim>\<open>_create_network\<close> builds it, the output of layer \<^verbatim>\<open>'Z'\<close> alone as
  \<^verbatim>\<open>restore_model\<close> rebuilds it. Either way it runs the layers of \<^verbatim>\<open>self.vae_model\<close>.
\<close>

datatype encoder_kind = MuLogVarZ | OnlyZ

text \<open>What \<^verbatim>\<open>encoder_model.predict\<close> returns: a list of three arrays, or one array.\<close>

datatype enc_out = Outputs3 matrix matrix matrix | OutputZ matrix

record vae_arith =
  x_dim :: nat
  z_dim :: nat
  learning_rate :: real
  dropout_rate :: real
  model_to_use :: string
  vae_model :: network
  compiled :: bool
  encoder_model :: encoder_kind
  decoder_model :: "decoder option"
  global_step :: int

text \<open>
  What the embedding takes from outside the source file: the functions of \<^verbatim>\<open>.util\<close>
  (a failure is a message), what Keras makes of a scipy sparse batch, the optimiser's
  work on one epoch's rows (in the order given, with the batch size), and the loss on a
  validation set.
\<close>

record env =
  balancer :: "adata \<Rightarrow> string + adata"
  extractor :: "adata \<Rightarrow> string \<Rightarrow> (string \<times> string) list \<Rightarrow> string + adata list"
  shuffle_data :: "adata \<Rightarrow> string + adata"
  keras_sparse :: "matrix \<Rightarrow> string + matrix"
  train_epoch :: "network \<Rightarrow> matrix \<Rightarrow> nat \<Rightarrow> network"
  val_loss :: "network \<Rightarrow> matrix \<Rightarrow> real"

type_synonym noise = "nat \<Rightarrow> nat \<Rightarrow> real"

subsection \<open>\<^verbatim>\<open>__init__\<close>\<close>

record kwargs =
  kw_learning_rate :: "real option"
  kw_dropout_rate :: "real option"
  kw_model_path :: "string option"

definition kwargs_get :: "'a option \<Rightarrow> 'a \<Rightarrow> 'a" where
  "kwargs_get v dflt = (case v of None \<Rightarrow> dflt | Some x \<Rightarrow> x)"

text \<open>
  The layers get the widths the constructor gives them; \<open>w0\<close> is the random initial
  weights. No \<^verbatim>\<open>decoder_model\<close> attribute is set.
\<close>

definition with_widths :: "nat \<Rightarrow> nat \<Rightarrow> network \<Rightarrow> network" where
  "with_widths xd zd w =
     w\<lparr>in_dim := xd,
       mean_layer := (mean_layer w)\<lparr>units := zd\<rparr>,
       log_var_layer := (log_var_layer w)\<lparr>units := zd\<rparr>,
       out_layer := (out_layer w)\<lparr>units := xd\<rparr>\<rparr>"

definition init :: "nat \<Rightarrow> nat option \<Rightarrow> kwargs \<Rightarrow> network \<Rightarrow> vae_arith" where
  "init x_dimension z_dimension kw w0 =
     (let zd = (case z_dimension of None \<Rightarrow> 100 | Some z \<Rightarrow> z) in
      \<lparr>x_dim = x_dimension,
       z_dim = zd,
       learning_rate = kwargs_get (kw_learning_rate kw) 0.001,
       dropout_rate = kwargs_get (kw_dropout_rate kw) 0.2,
       model_to_use = kwargs_get (kw_model_path kw) ''../models/scgen'',
       vae_model = with_widths x_dimension zd w0,
       compiled = True,
       encoder_model = MuLogVarZ,
       decoder_model = None,
       global_step = 0\<rparr>)"

subsection \<open>\<^verbatim>\<open>Model.predict\<close>\<close>

definition check_width :: "nat \<Rightarrow> matrix \<Rightarrow> error + matrix" where
  "check_width d m =
     (if list_all (\<lambda>r. length r = d) m then Inr m
      else Inl (ValueError ''Error when checking input''))"

text \<open>
  The rows Keras feeds to a model whose input has width \<open>d\<close>: a rank-1 array becomes a
  column, an array of rank 3 is refused, every row must have the width of the input.
\<close>

fun keras_rows :: "env \<Rightarrow> nat \<Rightarrow> kinput \<Rightarrow> error + matrix" where
  "keras_rows ev d (KSparse m) =
     (case keras_sparse ev m of
        Inl msg \<Rightarrow> Inl (KerasError msg)
      | Inr rows \<Rightarrow> check_width d rows)"
| "keras_rows ev d (KDense (A1 v)) = check_width d (map (\<lambda>x. [x]) v)"
| "keras_rows ev d (KDense (A2 m)) = check_width d m"
| "keras_rows ev d (KDense (A3 t)) = Inl (ValueError ''Error when checking input'')"

subsection \<open>\<^verbatim>\<open>_encoder\<close>, \<^verbatim>\<open>_sample_z\<close>, \<^verbatim>\<open>_decoder\<close>\<close>

definition encoder_mean :: "network \<Rightarrow> matrix \<Rightarrow> matrix" where
  "encoder_mean w rows = map (\<lambda>x. dense_apply (mean_layer w) (enc_hidden w x)) rows"

definition encoder_log_var :: "network \<Rightarrow> matrix \<Rightarrow> matrix" where
  "encoder_log_var w rows = map (\<lambda>x. dense_apply (log_var_layer w) (enc_hidden w x)) rows"

text \<open>
  \<^verbatim>\<open>eps = K.random_normal(shape=[batch_size, z_dim]); return mu + K.exp(log_var / 2) * eps\<close>.
  The draw is a parameter: \<open>eps i j\<close> is the standard normal sample for row \<open>i\<close>, latent
  dimension \<open>j\<close> of this run.
\<close>

definition sample_z :: "nat \<Rightarrow> matrix \<Rightarrow> matrix \<Rightarrow> noise \<Rightarrow> matrix" where
  "sample_z zd mu log_var eps =
     map (\<lambda>i. map (\<lambda>j. mu ! i ! j + exp (log_var ! i ! j / 2) * eps i j) [0..<zd])
       [0..<length mu]"

definition decoder_apply :: "decoder \<Rightarrow> vec \<Rightarrow> vec" where
  "decoder_apply d z = dense_apply (out d) (hidden d z)"

section \<open>The latent arithmetic\<close>

subsection \<open>\<^verbatim>\<open>to_latent\<close>\<close>

text \<open>\<^verbatim>\<open>latent = self.encoder_model.predict(x=data); return latent\<close>\<close>

definition to_latent :: "vae_arith \<Rightarrow> env \<Rightarrow> noise \<Rightarrow> kinput \<Rightarrow> error + enc_out" where
  "to_latent self ev eps data =
     and_then (keras_rows ev (in_dim (vae_model self)) data) (\<lambda>rows.
       let mu = encoder_mean (vae_model self) rows;
           log_var = encoder_log_var (vae_model self) rows;
           z = sample_z (units (mean_layer (vae_model self))) mu log_var eps
       in (case encoder_model self of
             MuLogVarZ \<Rightarrow> Inr (Outputs3 mu log_var z)
           | OnlyZ \<Rightarrow> Inr (OutputZ z)))"

subsection \<open>\<^verbatim>\<open>_avg_vector\<close>\<close>

definition t_scale :: "real \<Rightarrow> matrix \<Rightarrow> matrix" where
  "t_scale c t = map (map (\<lambda>x. c * x)) t"

text \<open>
  \<^verbatim>\<open>numpy.average(latent, axis=0)\<close>. One array of shape [n, z] averages over its rows.
  A list of three arrays of shape [n, z] is first made an array of shape [3, n, z], and
  the average over its first axis is the mean of the three arrays, of shape [n, z].
\<close>

fun numpy_average_axis0 :: "enc_out \<Rightarrow> error + ndarray" where
  "numpy_average_axis0 (OutputZ z) = and_then (mean_axis0 z) (\<lambda>v. Inr (A1 v))"
| "numpy_average_axis0 (Outputs3 mu log_var z) =
     Inr (A2 (t_scale (1 / 3) (t_add (t_add mu log_var) z)))"

definition avg_vector :: "vae_arith \<Rightarrow> env \<Rightarrow> noise \<Rightarrow> kinput \<Rightarrow> error + ndarray" where
  "avg_vector self ev eps data = and_then (to_latent self ev eps data) numpy_average_axis0"

subsection \<open>\<^verbatim>\<open>reconstruct\<close>\<close>

text \<open>
  \<^verbatim>\<open>rec_data = self.decoder_model.predict(x=data); return rec_data\<close>. Reading an attribute
  that was never set raises \<^verbatim>\<open>AttributeError\<close>. The body never reads \<^verbatim>\<open>use_data\<close>.
\<close>

definition reconstruct :: "vae_arith \<Rightarrow> env \<Rightarrow> kinput \<Rightarrow> bool \<Rightarrow> error + matrix" where
  "reconstruct self ev data use_data =
     (case decoder_model self of
        None \<Rightarrow> Inl (AttributeError ''decoder_model'')
      | Some d \<Rightarrow> and_then (keras_rows ev (dec_in d) data) (\<lambda>rows. Inr (map (decoder_apply d) rows)))"

subsection \<open>\<^verbatim>\<open>linear_interpolation\<close>\<close>

text \<open>
  Both arms of each \<^verbatim>\<open>if sparse.issparse(...)\<close> are the expression
  \<^verbatim>\<open>adata.X.A.mean(axis=0).reshape((1, adata.shape[1]))\<close>.
\<close>

definition average_if_sparse :: "adata \<Rightarrow> error + matrix" where
  "average_if_sparse a =
     and_then (dot_A (X a)) (\<lambda>m. and_then (mean_axis0 m) (\<lambda>v. reshape_row v (n_vars a)))"

definition average_else :: "adata \<Rightarrow> error + matrix" where
  "average_else a =
     and_then (dot_A (X a)) (\<lambda>m. and_then (mean_axis0 m) (\<lambda>v. reshape_row v (n_vars a)))"

text \<open>\<^verbatim>\<open>start.shape[1]\<close>: a Python list has no attribute \<^verbatim>\<open>shape\<close>.\<close>

fun shape1 :: "enc_out \<Rightarrow> nat \<Rightarrow> error + nat" where
  "shape1 (Outputs3 mu log_var z) zd = Inl (AttributeError ''shape'')"
| "shape1 (OutputZ z) zd = Inr zd"

fun first_row :: "enc_out \<Rightarrow> vec" where
  "first_row (OutputZ z) = (case z of [] \<Rightarrow> [] | r # rs \<Rightarrow> r)"
| "first_row (Outputs3 mu log_var z) = []"

text \<open>
  \<^verbatim>\<open>for i, alpha in enumerate(alpha_values): vector = start * (1 - alpha) + end * alpha;
  vectors[i, :] = vector\<close>, with \<open>s\<close> and \<open>e\<close> the single rows of \<^verbatim>\<open>start\<close> and
  \<^verbatim>\<open>end\<close>.
\<close>

fun interpolate :: "vec \<Rightarrow> vec \<Rightarrow> (nat \<times> real) list \<Rightarrow> matrix \<Rightarrow> matrix" where
  "interpolate s e [] vectors = vectors"
| "interpolate s e ((i, alpha) # rest) vectors =
     interpolate s e rest
       (vectors[i := map2 (+) (map (\<lambda>x. x * (1 - alpha)) s) (map (\<lambda>x. x * alpha) e)])"

text \<open>
  \<open>test\<close> is the test of the two \<^verbatim>\<open>if\<close> statements; the source uses
  \<^verbatim>\<open>sparse.issparse\<close> on \<^verbatim>\<open>.X\<close>. A negative \<^verbatim>\<open>n_steps\<close> makes \<^verbatim>\<open>numpy.zeros\<close> fail.
\<close>

definition linear_interpolation_with ::
  "(xmat \<Rightarrow> bool) \<Rightarrow> vae_arith \<Rightarrow> env \<Rightarrow> noise \<Rightarrow> noise \<Rightarrow> adata \<Rightarrow> adata \<Rightarrow> int
     \<Rightarrow> error + matrix" where
  "linear_interpolation_with test self ev eps_source eps_dest source_adata dest_adata n_steps =
     and_then (if test (X source_adata) then average_if_sparse source_adata
               else average_else source_adata) (\<lambda>source_average.
     and_then (if test (X dest_adata) then average_if_sparse dest_adata
               else average_else dest_adata) (\<lambda>dest_average.
     and_then (to_latent self ev eps_source (KDense (A2 source_average))) (\<lambda>start.
     and_then (to_latent self ev eps_dest (KDense (A2 dest_average))) (\<lambda>end_latent.
     and_then (shape1 start (units (mean_layer (vae_model self)))) (\<lambda>width.
       if n_steps < 0 then Inl (ValueError ''negative dimensions are not allowed'')
       else
         let vectors = replicate (nat n_steps) (replicate width 0);
             alpha_values = linspace01 (nat n_steps);
             vectors = interpolate (first_row start) (first_row end_latent)
                         (enumerate 0 alpha_values) vectors
         in reconstruct self ev (KDense (A2 vectors)) True)))))"

definition linear_interpolation ::
  "vae_arith \<Rightarrow> env \<Rightarrow> noise \<Rightarrow> noise \<Rightarrow> adata \<Rightarrow> adata \<Rightarrow> int \<Rightarrow> error + matrix" where
  "linear_interpolation = linear_interpolation_with issparse"

subsection \<open>\<^verbatim>\<open>predict\<close>\<close>

definition dict_get :: "(string \<times> 'v) list \<Rightarrow> string \<Rightarrow> error + 'v" where
  "dict_get d k = (case map_of d k of None \<Rightarrow> Inl (KeyError k) | Some v \<Rightarrow> Inr v)"

definition filter_mask :: "bool list \<Rightarrow> 'a list \<Rightarrow> 'a list" where
  "filter_mask msk xs = map snd (filter fst (zip msk xs))"

fun map_rows :: "(matrix \<Rightarrow> matrix) \<Rightarrow> xmat \<Rightarrow> xmat" where
  "map_rows f (SparseX m) = SparseX (f m)"
| "map_rows f (DenseX m) = DenseX (f m)"

text \<open>\<^verbatim>\<open>adata[mask, :]\<close>: the rows, and their labels, where the mask holds.\<close>

definition select :: "adata \<Rightarrow> bool list \<Rightarrow> adata" where
  "select a msk =
     a\<lparr>X := map_rows (filter_mask msk) (X a),
       obs := map (\<lambda>(k, col). (k, filter_mask msk col)) (obs a)\<rparr>"

definition balance :: "env \<Rightarrow> adata \<Rightarrow> error + adata" where
  "balance ev a = (case balancer ev a of Inl msg \<Rightarrow> Inl (CollaboratorError msg) | Inr b \<Rightarrow> Inr b)"

text \<open>The argument \<^verbatim>\<open>obs_key\<close>: a string (\<^verbatim>\<open>"all"\<close> by default) or a dictionary.\<close>

datatype obs_key = ObsStr string | ObsDict "(string \<times> string list) list"

text \<open>
  Lines 338 to 351: the control and the stimulated subset. A string other than
  \<^verbatim>\<open>"all"\<close> has no \<^verbatim>\<open>keys\<close>; \<^verbatim>\<open>list(obs_key.keys())[0]\<close> fails on an empty
  dictionary.
\<close>

definition ctrl_stim :: "adata \<Rightarrow> (string \<times> string) list \<Rightarrow> error + adata \<times> adata" where
  "ctrl_stim a conditions =
     and_then (dict_get (obs a) ''condition'') (\<lambda>col.
     and_then (dict_get conditions ''ctrl'') (\<lambda>c.
     and_then (dict_get conditions ''stim'') (\<lambda>s.
       Inr (select a (map (\<lambda>l. l = c) col), select a (map (\<lambda>l. l = s) col)))))"

definition balance_both :: "env \<Rightarrow> adata \<times> adata \<Rightarrow> error + adata \<times> adata" where
  "balance_both ev p =
     and_then (balance ev (fst p)) (\<lambda>ctrl_x.
     and_then (balance ev (snd p)) (\<lambda>stim_x. Inr (ctrl_x, stim_x)))"

definition predict_subsets ::
  "env \<Rightarrow> adata \<Rightarrow> (string \<times> string) list \<Rightarrow> obs_key \<Rightarrow> error + adata \<times> adata" where
  "predict_subsets ev adata conditions key =
     (case key of
        ObsStr s \<Rightarrow>
          if s = ''all'' then and_then (ctrl_stim adata conditions) (balance_both ev)
          else Inl (AttributeError ''keys'')
      | ObsDict d \<Rightarrow>
          (case d of
             [] \<Rightarrow> Inl (IndexError ''list index out of range'')
           | (k, vs) # rest \<Rightarrow>
               and_then (dict_get (obs adata) k) (\<lambda>col.
               and_then (ctrl_stim (select adata (map (\<lambda>l. l \<in> set vs) col)) conditions) (\<lambda>p.
                 if length vs > 1 then balance_both ev p else Inr p))))"

text \<open>
  \<^verbatim>\<open>extractor(adata, celltype_to_predict, conditions)[1]\<close>, or the dataset given. With
  neither given \<^verbatim>\<open>ctrl_pred\<close> would be \<^verbatim>\<open>None\<close>, which has no \<^verbatim>\<open>X\<close>;
  \<^verbatim>\<open>predict\<close> raises before it gets there.
\<close>

definition target_cells ::
  "env \<Rightarrow> adata \<Rightarrow> (string \<times> string) list \<Rightarrow> adata option \<Rightarrow> string option \<Rightarrow> error + adata" where
  "target_cells ev adata conditions adata_to_predict celltype_to_predict =
     (case celltype_to_predict of
        Some ct \<Rightarrow>
          (case extractor ev adata ct conditions of
             Inl msg \<Rightarrow> Inl (CollaboratorError msg)
           | Inr parts \<Rightarrow>
               if 1 < length parts then Inr (parts ! 1)
               else Inl (IndexError ''list index out of range''))
      | None \<Rightarrow>
          (case adata_to_predict of
             Some a \<Rightarrow> Inr a
           | None \<Rightarrow> Inl (AttributeError ''X'')))"

text \<open>The random draws of one call of \<^verbatim>\<open>predict\<close>.\<close>

record draws =
  cd_ind :: "nat list"
  stim_ind :: "nat list"
  eps_ctrl :: noise
  eps_stim :: noise
  eps_pred :: noise

text \<open>\<^verbatim>\<open>x.X[ind, :]\<close> keeps the storage class of \<^verbatim>\<open>x.X\<close>.\<close>

fun index_rows :: "xmat \<Rightarrow> nat list \<Rightarrow> kinput" where
  "index_rows (SparseX m) ind = KSparse (take_rows m ind)"
| "index_rows (DenseX m) ind = KDense (A2 (take_rows m ind))"

fun as_kinput :: "xmat \<Rightarrow> kinput" where
  "as_kinput (SparseX m) = KSparse m"
| "as_kinput (DenseX m) = KDense (A2 m)"

text \<open>A list of arrays that meets an array in \<^verbatim>\<open>+\<close> is made an array first.\<close>

fun asarray :: "enc_out \<Rightarrow> ndarray" where
  "asarray (OutputZ z) = A2 z"
| "asarray (Outputs3 mu log_var z) = A3 [mu, log_var, z]"

text \<open>Lines 360 to 376, after the subsets and the target cells are known.\<close>

definition predict_delta ::
  "vae_arith \<Rightarrow> env \<Rightarrow> draws \<Rightarrow> adata \<Rightarrow> adata \<Rightarrow> error + ndarray" where
  "predict_delta self ev dr ctrl_x stim_x =
     (let eq = min (length (rows_of (X ctrl_x))) (length (rows_of (X stim_x))) in
      and_then (random_choice (length (rows_of (X ctrl_x))) eq (cd_ind dr)) (\<lambda>cd.
      and_then (random_choice (length (rows_of (X stim_x))) eq (stim_ind dr)) (\<lambda>st.
      and_then
        (if issparse (X ctrl_x) \<and> issparse (X stim_x) then
           and_then (dot_A (X ctrl_x)) (\<lambda>m.
             avg_vector self ev (eps_ctrl dr) (KDense (A2 (take_rows m cd))))
         else avg_vector self ev (eps_ctrl dr) (index_rows (X ctrl_x) cd)) (\<lambda>latent_ctrl.
      and_then
        (if issparse (X ctrl_x) \<and> issparse (X stim_x) then
           and_then (dot_A (X stim_x)) (\<lambda>m.
             avg_vector self ev (eps_stim dr) (KDense (A2 (take_rows m st))))
         else avg_vector self ev (eps_stim dr) (index_rows (X stim_x) st)) (\<lambda>latent_sim.
        np_binop (-) latent_sim latent_ctrl)))))"

definition predict_cells ::
  "vae_arith \<Rightarrow> env \<Rightarrow> draws \<Rightarrow> ndarray \<Rightarrow> adata \<Rightarrow> error + matrix" where
  "predict_cells self ev dr delta ctrl_pred =
     and_then
       (if issparse (X ctrl_pred) then
          and_then (dot_A (X ctrl_pred)) (\<lambda>m. to_latent self ev (eps_pred dr) (KDense (A2 m)))
        else to_latent self ev (eps_pred dr) (as_kinput (X ctrl_pred))) (\<lambda>latent_cd.
     and_then (np_binop (+) delta (asarray latent_cd)) (\<lambda>stim_pred.
       reconstruct self ev (KDense stim_pred) True))"

definition both_given :: string where
  "both_given = ''Please provide either a cell type or adata not both!''"

definition none_given :: string where
  "none_given = ''Please provide a cell type name or adata for your unperturbed cells''"

definition predict ::
  "vae_arith \<Rightarrow> env \<Rightarrow> draws \<Rightarrow> adata \<Rightarrow> (string \<times> string) list \<Rightarrow> adata option
     \<Rightarrow> string option \<Rightarrow> obs_key \<Rightarrow> error + matrix \<times> ndarray" where
  "predict self ev dr adata conditions adata_to_predict celltype_to_predict key =
     and_then (predict_subsets ev adata conditions key) (\<lambda>(ctrl_x, stim_x).
       if celltype_to_predict \<noteq> None \<and> adata_to_predict \<noteq> None then
         Inl (PyException both_given)
       else if celltype_to_predict = None \<and> adata_to_predict = None then
         Inl (PyException none_given)
       else
         and_then (target_cells ev adata conditions adata_to_predict celltype_to_predict)
           (\<lambda>ctrl_pred.
         and_then (predict_delta self ev dr ctrl_x stim_x) (\<lambda>delta.
         and_then (predict_cells self ev dr delta ctrl_pred) (\<lambda>predicted_cells.
           Inr (predicted_cells, delta)))))"

section \<open>Files, \<^verbatim>\<open>restore_model\<close> and \<^verbatim>\<open>train\<close>\<close>

text \<open>
  \<^verbatim>\<open>os.path.join(a, *p)\<close>: a component that starts with a slash replaces what came
  before it; otherwise it is appended, after a slash unless the path is empty or ends
  with one.
\<close>

definition join2 :: "string \<Rightarrow> string \<Rightarrow> string" where
  "join2 a b =
     (if b \<noteq> [] \<and> hd b = CHR ''/'' then b
      else if a = [] \<or> last a = CHR ''/'' then a @ b
      else a @ ''/'' @ b)"

definition os_path_join :: "string \<Rightarrow> string list \<Rightarrow> string" where
  "os_path_join a p = foldl join2 a p"

text \<open>
  What is outside the object: the files by path (relative paths are relative to the
  working directory), the TensorFlow checkpoints by path, with the value of
  \<^verbatim>\<open>global_step\<close> they hold, and whether the directory \<^verbatim>\<open>./results\<close> exists.
\<close>

datatype artifact = VaeFile network | EncoderFile network | LogFile

record world =
  files :: "string \<Rightarrow> artifact option"
  checkpoints :: "string \<Rightarrow> int option"
  results_dir :: bool

subsection \<open>\<^verbatim>\<open>restore_model\<close>\<close>

text \<open>
  \<open>d0\<close> is the random initial weights of the decoder that lines 402 to 412 build.
  \<^verbatim>\<open>load_model(..., compile=False)\<close> replaces \<^verbatim>\<open>self.vae_model\<close>, the encoder is
  rebuilt with the output of layer \<^verbatim>\<open>'Z'\<close>, \<^verbatim>\<open>self.decoder_model\<close> is set, and then
  the weights of the layers from index 11 on are copied. \<^verbatim>\<open>set_weights\<close> refuses weights
  of another shape: the first \<^verbatim>\<open>Dense\<close> fails when the stored latent width is not
  \<^verbatim>\<open>self.z_dim\<close>, the last when the stored output width is not \<^verbatim>\<open>self.x_dim\<close>. A
  stored encoder has no layer 12. The object keeps what was assigned before a failure.
\<close>

definition fresh_decoder :: "vae_arith \<Rightarrow> decoder \<Rightarrow> decoder" where
  "fresh_decoder self d0 =
     \<lparr>dec_in = z_dim self, hidden = hidden d0, out = (out d0)\<lparr>units := x_dim self\<rparr>\<rparr>"

definition restore_model :: "vae_arith \<Rightarrow> world \<Rightarrow> decoder \<Rightarrow> vae_arith \<times> (error + unit)" where
  "restore_model self w d0 =
     (case files w (os_path_join (model_to_use self) [''vae.h5'']) of
        None \<Rightarrow> (self, Inl (OSError ''Unable to open file''))
      | Some LogFile \<Rightarrow> (self, Inl (OSError ''Unable to open file''))
      | Some (EncoderFile net) \<Rightarrow>
          (self\<lparr>vae_model := net, compiled := False, encoder_model := OnlyZ,
                decoder_model := Some (fresh_decoder self d0)\<rparr>,
           Inl (IndexError ''list index out of range''))
      | Some (VaeFile net) \<Rightarrow>
          (let self1 = self\<lparr>vae_model := net, compiled := False, encoder_model := OnlyZ\<rparr> in
           if units (mean_layer net) \<noteq> z_dim self then
             (self1\<lparr>decoder_model := Some (fresh_decoder self d0)\<rparr>,
              Inl (ValueError ''Layer weight shape not compatible''))
           else if units (out_layer net) \<noteq> x_dim self then
             (self1\<lparr>decoder_model := Some ((fresh_decoder self d0)\<lparr>hidden := dec_hidden net\<rparr>)\<rparr>,
              Inl (ValueError ''Layer weight shape not compatible''))
           else
             (self1\<lparr>decoder_model :=
                 Some \<lparr>dec_in = z_dim self, hidden = dec_hidden net, out = out_layer net\<rparr>\<rparr>,
              Inr ())))"

subsection \<open>\<^verbatim>\<open>Model.fit\<close>\<close>

text \<open>
  The optimiser changes weights, not the widths of the layers.
\<close>

definition same_widths :: "network \<Rightarrow> network \<Rightarrow> network" where
  "same_widths old new =
     new\<lparr>in_dim := in_dim old,
         mean_layer := (mean_layer new)\<lparr>units := units (mean_layer old)\<rparr>,
         log_var_layer := (log_var_layer new)\<lparr>units := units (log_var_layer old)\<rparr>,
         out_layer := (out_layer new)\<lparr>units := units (out_layer old)\<rparr>\<rparr>"

text \<open>
  The state of the loop of \<^verbatim>\<open>fit\<close>: the weights, the best monitored value so far
  (\<open>None\<close> is infinity) and the count of epochs without improvement of
  \<^verbatim>\<open>EarlyStopping\<close>, the flag \<^verbatim>\<open>stop_training\<close>, and, to observe the loop, the rows
  given to the optimiser in each epoch, in their order.
\<close>

record fit_state =
  net :: network
  best :: "real option"
  wait :: nat
  stop_training :: bool
  seen :: "matrix list"

text \<open>
  \<^verbatim>\<open>EarlyStopping(patience, monitor='val_loss', min_delta)\<close> at the end of an epoch: the
  value improves when it is below the best by more than \<open>min_delta\<close>; without a
  validation set there is no \<^verbatim>\<open>val_loss\<close> and the callback does nothing.
\<close>

definition early_stopping :: "nat \<Rightarrow> real \<Rightarrow> real option \<Rightarrow> fit_state \<Rightarrow> fit_state" where
  "early_stopping patience min_delta current st =
     (case current of
        None \<Rightarrow> st
      | Some c \<Rightarrow>
          if (case best st of None \<Rightarrow> True | Some b \<Rightarrow> c + min_delta < b)
          then st\<lparr>best := Some c, wait := 0\<rparr>
          else if wait st + 1 \<ge> patience
               then st\<lparr>wait := wait st + 1, stop_training := True\<rparr>
               else st\<lparr>wait := wait st + 1\<rparr>)"

text \<open>
  The epochs of \<^verbatim>\<open>fit\<close>. With \<^verbatim>\<open>shuffle=True\<close> Keras draws a new order of the rows
  before every epoch; \<open>perms e\<close> is the order drawn in epoch \<open>e\<close>. The loop breaks once
  \<^verbatim>\<open>stop_training\<close> is set.
\<close>

fun fit_epochs ::
  "env \<Rightarrow> bool \<Rightarrow> (nat \<Rightarrow> nat list) \<Rightarrow> matrix \<Rightarrow> matrix option \<Rightarrow> nat \<Rightarrow> nat \<Rightarrow> real
     \<Rightarrow> nat list \<Rightarrow> fit_state \<Rightarrow> fit_state" where
  "fit_epochs ev shuffle perms rows val batch_size patience min_delta [] st = st"
| "fit_epochs ev shuffle perms rows val batch_size patience min_delta (e # es) st =
     (if stop_training st then st
      else
        let rows_e = (if shuffle then take_rows rows (perms e) else rows);
            trained = same_widths (net st) (train_epoch ev (net st) rows_e batch_size);
            st1 = st\<lparr>net := trained, seen := seen st @ [rows_e]\<rparr>;
            st2 = early_stopping patience min_delta
                    (map_option (val_loss ev trained) val) st1
        in fit_epochs ev shuffle perms rows val batch_size patience min_delta es st2)"

text \<open>
  \<^verbatim>\<open>vae_model.fit(x, y=x, epochs, batch_size, [validation_data], shuffle, callbacks)\<close>.
  Keras refuses a model that was not compiled, checks the arrays against the input and
  the output of the model, and \<^verbatim>\<open>CSVLogger\<close> opens \<^verbatim>\<open>./results/csv_logger.log\<close> when
  training begins.
\<close>

definition check_xy :: "env \<Rightarrow> network \<Rightarrow> xmat \<Rightarrow> error + matrix" where
  "check_xy ev w x =
     and_then (keras_rows ev (in_dim w) (as_kinput x)) (\<lambda>rows.
     and_then (keras_rows ev (units (out_layer w)) (as_kinput x)) (\<lambda>targets. Inr rows))"

definition fit ::
  "env \<Rightarrow> world \<Rightarrow> (nat \<Rightarrow> nat list) \<Rightarrow> network \<Rightarrow> bool \<Rightarrow> xmat \<Rightarrow> xmat option \<Rightarrow> nat \<Rightarrow> nat
     \<Rightarrow> bool \<Rightarrow> nat \<Rightarrow> real \<Rightarrow> error + fit_state" where
  "fit ev w perms model is_compiled x validation_data epochs batch_size shuffle patience min_delta =
     (if \<not> is_compiled then Inl (RuntimeError ''You must compile a model before training/testing'')
      else
        and_then (check_xy ev model x) (\<lambda>rows.
        and_then (case validation_data of
                    None \<Rightarrow> Inr None
                  | Some v \<Rightarrow> and_then (check_xy ev model v) (\<lambda>r. Inr (Some r))) (\<lambda>val.
          if \<not> results_dir w then Inl (OSError ''./results/csv_logger.log'')
          else Inr (fit_epochs ev shuffle perms rows val batch_size patience min_delta
                      [0..<epochs]
                      \<lparr>net = model, best = None, wait = 0, stop_training = False, seen = []\<rparr>))))"

subsection \<open>\<^verbatim>\<open>train\<close>\<close>

definition no_valid_data :: string where
  "no_valid_data = ''valid_data is None but use_validation is True.''"

text \<open>
  Lines 473 to 478. \<^verbatim>\<open>saver.restore\<close> reads the checkpoint at \<^verbatim>\<open>self.model_to_use\<close>
  into the session of the object and fails when there is none.
\<close>

definition train_start :: "vae_arith \<Rightarrow> world \<Rightarrow> bool \<Rightarrow> vae_arith \<times> (error + unit)" where
  "train_start self w initial_run =
     (if initial_run then (self\<lparr>global_step := 0\<rparr>, Inr ())
      else (case checkpoints w (model_to_use self) of
              None \<Rightarrow> (self, Inl (ValueError ''The passed save_path is not a valid checkpoint''))
            | Some g \<Rightarrow> (self\<lparr>global_step := g\<rparr>, Inr ())))"

text \<open>
  Lines 504 and 505: \<^verbatim>\<open>self.vae_model.save(os.path.join("vae.h5"), overwrite=True)\<close> and
  \<^verbatim>\<open>self.encoder_model.save(os.path.join("encoder.h5"), overwrite=True)\<close>; the log of
  \<^verbatim>\<open>CSVLogger\<close> is on disk by then.
\<close>

definition save_models :: "network \<Rightarrow> world \<Rightarrow> world" where
  "save_models model w =
     w\<lparr>files := (files w)
         (''./results/csv_logger.log'' \<mapsto> LogFile,
          os_path_join ''vae.h5'' [] \<mapsto> VaeFile model,
          os_path_join ''encoder.h5'' [] \<mapsto> EncoderFile model)\<rparr>"

definition train ::
  "vae_arith \<Rightarrow> world \<Rightarrow> env \<Rightarrow> (nat \<Rightarrow> nat list) \<Rightarrow> adata \<Rightarrow> bool \<Rightarrow> adata option \<Rightarrow> nat \<Rightarrow> nat
     \<Rightarrow> nat \<Rightarrow> real \<Rightarrow> bool \<Rightarrow> bool \<Rightarrow> (vae_arith \<times> world) \<times> (error + fit_state)" where
  "train self w ev perms train_data use_validation valid_data n_epochs batch_size
       early_stop_limit threshold initial_run shuffle =
     (case train_start self w initial_run of
        (self1, Inl e) \<Rightarrow> ((self1, w), Inl e)
      | (self1, Inr u) \<Rightarrow>
          if use_validation \<and> valid_data = None then ((self1, w), Inl (PyException no_valid_data))
          else
            (case (if shuffle
                   then (case shuffle_data ev train_data of
                           Inl msg \<Rightarrow> Inl (CollaboratorError msg)
                         | Inr d \<Rightarrow> Inr d)
                   else Inr train_data) of
               Inl e \<Rightarrow> ((self1, w), Inl e)
             | Inr data \<Rightarrow>
                 (case fit ev w perms (vae_model self1) (compiled self1) (X data)
                         (if use_validation then map_option X valid_data else None)
                         n_epochs batch_size shuffle early_stop_limit threshold of
                    Inl e \<Rightarrow> ((self1, w), Inl e)
                  | Inr st \<Rightarrow>
                      ((self1\<lparr>vae_model := net st\<rparr>, save_models (net st) w), Inr st))))"

section \<open>The widths of an object\<close>

text \<open>
  The constructor builds both output layers of the encoder with \<^verbatim>\<open>self.z_dim\<close> units.
  Training keeps that, and so does a \<^verbatim>\<open>restore_model\<close> that succeeds; one that fails
  on the stored widths leaves the loaded model in place.
\<close>

definition widths_ok :: "vae_arith \<Rightarrow> bool" where
  "widths_ok self =
     (units (mean_layer (vae_model self)) = z_dim self \<and>
      units (log_var_layer (vae_model self)) = z_dim self)"

section \<open>A small instance\<close>

text \<open>
  An object with one input variable and one latent dimension, whose layers are the
  identity or constant, the functions of \<^verbatim>\<open>.util\<close> as identities, and a dataset of
  one control and one stimulated cell.
\<close>

definition net0 :: network where
  "net0 = \<lparr>in_dim = 1, enc_hidden = (\<lambda>x. x),
           mean_layer = \<lparr>units = 1, kernel = [[1]], bias = [0]\<rparr>,
           log_var_layer = \<lparr>units = 1, kernel = [[0]], bias = [0]\<rparr>,
           dec_hidden = (\<lambda>z. z),
           out_layer = \<lparr>units = 1, kernel = [[1]], bias = [0]\<rparr>\<rparr>"

definition ev0 :: env where
  "ev0 = \<lparr>balancer = Inr, extractor = (\<lambda>a ct cond. Inr [a, a]), shuffle_data = Inr,
          keras_sparse = Inr, train_epoch = (\<lambda>w rows bs. w), val_loss = (\<lambda>w rows. 0)\<rparr>"

definition kw0 :: kwargs where
  "kw0 = \<lparr>kw_learning_rate = None, kw_dropout_rate = None, kw_model_path = Some ''./models/test''\<rparr>"

definition self0 :: vae_arith where
  "self0 = init 1 (Some 1) kw0 net0"

definition adata0 :: adata where
  "adata0 = \<lparr>X = DenseX [[1], [3]], n_vars = 1,
              obs = [(''condition'', [''control'', ''stimulated''])]\<rparr>"

definition conds0 :: "(string \<times> string) list" where
  "conds0 = [(''ctrl'', ''control''), (''stim'', ''stimulated'')]"

text \<open>Two draws of the sampler: 0 everywhere, and 1 everywhere.\<close>

definition eps_zero :: noise where
  "eps_zero i j = 0"


definition draws0 :: draws where
  "draws0 = \<lparr>cd_ind = [0], stim_ind = [0], eps_ctrl = eps_zero, eps_stim = eps_zero,
             eps_pred = eps_zero\<rparr>"

definition ctrl0 :: adata where
  "ctrl0 = \<lparr>X = DenseX [[1]], n_vars = 1, obs = [(''condition'', [''control''])]\<rparr>"

definition stim0 :: adata where
  "stim0 = \<lparr>X = DenseX [[3]], n_vars = 1, obs = [(''condition'', [''stimulated''])]\<rparr>"

text \<open>An environment whose balancer fails.\<close>

definition ev_failing :: env where
  "ev_failing = ev0\<lparr>balancer := (\<lambda>a. Inl ''balancer failed'')\<rparr>"

text \<open>
  A world with no files and no checkpoint, the orders Keras draws for the epochs, the
  initial decoder of \<^verbatim>\<open>restore_model\<close>, a world where the saved model is at
  \<^verbatim>\<open>./models/test/vae.h5\<close>, and the object restored from it.
\<close>

definition world0 :: world where
  "world0 = \<lparr>files = (\<lambda>p. None), checkpoints = (\<lambda>p. None), results_dir = True\<rparr>"

definition perms0 :: "nat \<Rightarrow> nat list" where
  "perms0 e = (if e = 0 then [0, 1] else [1, 0])"

definition dec0 :: decoder where
  "dec0 = \<lparr>dec_in = 0, hidden = (\<lambda>z. []), out = \<lparr>units = 0, kernel = [], bias = []\<rparr>\<rparr>"

definition world1 :: world where
  "world1 = world0\<lparr>files := (files world0)(''./models/test/vae.h5'' \<mapsto> VaeFile (vae_model self0))\<rparr>"

definition restored0 :: vae_arith where
  "restored0 = fst (restore_model self0 world1 dec0)"

section \<open>Tensor lemmas\<close>

lemma has_shape_row: "has_shape n d t \<Longrightarrow> i < n \<Longrightarrow> length (t ! i) = d"
  by (simp add: has_shape_def list_all_length)

lemma sum_list_as_sum: "sum_list (xs :: real list) = (\<Sum>j<length xs. xs ! j)"
  by (simp add: sum_list_sum_nth atLeast0LessThan)

lemma recon_loss_nth:
  assumes "has_shape n d y_true" "has_shape n d y_pred" "i < n"
  shows "recon_loss y_true y_pred ! i = spec_recon d y_true y_pred i"
proof -
  have l: "length y_true = n" "length y_pred = n"
    using assms by (simp_all add: has_shape_def)
  have r: "length (y_true ! i) = d" "length (y_pred ! i) = d"
    using assms by (simp_all add: has_shape_row)
  have "recon_loss y_true y_pred ! i
      = 0.5 * sum_list (map (\<lambda>x. x * x) (map2 (-) (y_true ! i) (y_pred ! i)))"
    using l assms(3)
    by (simp add: recon_loss_def v_scale_def K_sum_axis1_def K_square_def t_sub_def)
  also have "\<dots> = spec_recon d y_true y_pred i"
    using r by (simp add: sum_list_as_sum spec_recon_def power2_eq_square)
  finally show ?thesis .
qed

lemma kl_loss_nth:
  assumes "has_shape n d mu" "has_shape n d log_var" "i < n"
  shows "kl_loss mu log_var ! i = spec_kl d mu log_var i"
proof -
  have l: "length mu = n" "length log_var = n"
    using assms by (simp_all add: has_shape_def)
  have r: "length (mu ! i) = d" "length (log_var ! i) = d"
    using assms by (simp_all add: has_shape_row)
  have "kl_loss mu log_var ! i
      = 0.5 * sum_list (map2 (-) (map (\<lambda>x. x - 1)
          (map2 (+) (map exp (log_var ! i)) (map (\<lambda>x. x * x) (mu ! i)))) (log_var ! i))"
    using l assms(3)
    by (simp add: kl_loss_def v_scale_def K_sum_axis1_def K_square_def K_exp_def
        t_sub_def t_add_def t_sub_scalar_def)
  also have "\<dots> = spec_kl d mu log_var i"
    using r by (simp add: sum_list_as_sum spec_kl_def power2_eq_square)
  finally show ?thesis .
qed

lemma length_recon_loss: "length (recon_loss a b) = min (length a) (length b)"
  by (simp add: recon_loss_def v_scale_def K_sum_axis1_def K_square_def t_sub_def)

lemma length_kl_loss: "length (kl_loss mu log_var) = min (length log_var) (length mu)"
  by (simp add: kl_loss_def v_scale_def K_sum_axis1_def K_square_def K_exp_def
      t_sub_def t_add_def t_sub_scalar_def)

lemma vae_loss_as_spec:
  assumes "has_shape n xd y_true" "has_shape n xd y_pred"
    and "has_shape n zd mu" "has_shape n zd log_var"
  shows "vae_loss mu log_var y_true y_pred = spec_loss n xd zd mu log_var y_true y_pred"
proof -
  have l: "length y_true = n" "length y_pred = n" "length mu = n" "length log_var = n"
    using assms by (simp_all add: has_shape_def)
  let ?v = "v_add (recon_loss y_true y_pred) (v_scale 0.001 (kl_loss mu log_var))"
  have len: "length ?v = n"
    using l by (simp add: v_add_def v_scale_def length_recon_loss length_kl_loss)
  have nth: "?v ! i = spec_recon xd y_true y_pred i + 0.001 * spec_kl zd mu log_var i"
    if "i < n" for i
    using that l assms recon_loss_nth [of n xd y_true y_pred i]
      kl_loss_nth [of n zd mu log_var i]
    by (simp add: v_add_def v_scale_def length_recon_loss length_kl_loss)
  have "sum_list ?v = (\<Sum>i<n. ?v ! i)"
    using len by (simp add: sum_list_as_sum)
  also have "\<dots> = (\<Sum>i<n. spec_recon xd y_true y_pred i + 0.001 * spec_kl zd mu log_var i)"
    by (rule sum.cong) (use nth in simp_all)
  finally show ?thesis
    using len by (simp add: vae_loss_def K_mean_def spec_loss_def)
qed

lemma kl_loss_zero:
  assumes "has_shape n zd mu" "has_shape n zd log_var"
    and "\<forall>i<n. \<forall>j<zd. mu ! i ! j = 0 \<and> log_var ! i ! j = 0"
  shows "kl_loss mu log_var = replicate n 0"
proof (rule nth_equalityI)
  show "length (kl_loss mu log_var) = length (replicate n (0::real))"
    using assms by (simp add: length_kl_loss has_shape_def)
next
  fix i assume "i < length (kl_loss mu log_var)"
  then have i: "i < n"
    using assms by (simp add: length_kl_loss has_shape_def)
  then have "kl_loss mu log_var ! i = spec_kl zd mu log_var i"
    using assms kl_loss_nth by blast
  also have "\<dots> = 0"
    using assms(3) i by (simp add: spec_kl_def)
  finally show "kl_loss mu log_var ! i = replicate n 0 ! i"
    using i by simp
qed

section \<open>The instance, evaluated\<close>

lemmas fixture_defs = self0_def init_def kw0_def net0_def ev0_def with_widths_def kwargs_get_def

section \<open>Lemmas on the operations\<close>




lemma has_shape_sample_z: "has_shape (length mu) zd (sample_z zd mu lv eps)"
  by (simp add: has_shape_def sample_z_def list_all_iff)


lemma to_latent_rows:
  assumes "keras_rows ev (in_dim (vae_model self)) data = Inr rows"
  shows "to_latent self ev eps data =
     Inr (case encoder_model self of
            MuLogVarZ \<Rightarrow>
              Outputs3 (encoder_mean (vae_model self) rows) (encoder_log_var (vae_model self) rows)
                (sample_z (units (mean_layer (vae_model self)))
                   (encoder_mean (vae_model self) rows) (encoder_log_var (vae_model self) rows) eps)
          | OnlyZ \<Rightarrow>
              OutputZ (sample_z (units (mean_layer (vae_model self)))
                   (encoder_mean (vae_model self) rows) (encoder_log_var (vae_model self) rows) eps))"
  using assms by (simp add: to_latent_def and_then_def Let_def split: encoder_kind.splits)

lemma widths_ok_self0: "widths_ok self0"
  by (simp add: widths_ok_def fixture_defs)

lemma keras_rows_self0: "keras_rows ev0 (in_dim (vae_model self0)) (KDense (A2 [[2]])) = Inr [[2]]"
  by (simp add: fixture_defs check_width_def)

lemma average_branches_equal: "average_if_sparse a = average_else a"
  by (simp add: average_if_sparse_def average_else_def)

lemma average_dense: "average_else (a\<lparr>X := DenseX m\<rparr>) = Inl (AttributeError ''A'')"
  by (simp add: average_else_def and_then_def)

lemma interpolation_test_irrelevant:
  "linear_interpolation_with test self ev eps_source eps_dest source_adata dest_adata n_steps
     = linear_interpolation self ev eps_source eps_dest source_adata dest_adata n_steps"
  by (simp add: linear_interpolation_def linear_interpolation_with_def average_branches_equal)

lemma interpolation_dense_source:
  "linear_interpolation self ev eps_source eps_dest (source_adata\<lparr>X := DenseX m\<rparr>) dest_adata
     n_steps = Inl (AttributeError ''A'')"
  by (simp add: linear_interpolation_def linear_interpolation_with_def average_dense and_then_def)

lemma and_then_Inl: "and_then (Inl e) f = Inl e"
  by (simp add: and_then_def)

lemma and_then_Inr: "and_then (Inr v) f = f v"
  by (simp add: and_then_def)

lemma and_then_no_py:
  assumes "r \<noteq> Inl (PyException msg)" and "\<And>v. f v \<noteq> Inl (PyException msg)"
  shows "and_then r f \<noteq> Inl (PyException msg)"
  using assms by (cases r) (simp_all add: and_then_def)

lemma sequence_no_py:
  "(\<And>r. r \<in> set rs \<Longrightarrow> r \<noteq> Inl (PyException msg)) \<Longrightarrow> sequence rs \<noteq> Inl (PyException msg)"
  by (induction rs) (auto split: sum.splits)

lemma broadcast_no_py:
  assumes "\<And>x y. f x y \<noteq> Inl (PyException msg)"
  shows "broadcast f a b \<noteq> Inl (PyException msg)"
proof -
  have "sequence (map2 f a b) \<noteq> Inl (PyException msg)"
    by (rule sequence_no_py) (use assms in auto)
  moreover have "sequence (map (f (hd a)) b) \<noteq> Inl (PyException msg)"
    by (rule sequence_no_py) (use assms in auto)
  moreover have "sequence (map (\<lambda>x. f x (hd b)) a) \<noteq> Inl (PyException msg)"
    by (rule sequence_no_py) (use assms in auto)
  ultimately show ?thesis
    by (simp add: broadcast_def)
qed

lemma bc1_no_py: "bc1 f a b \<noteq> Inl (PyException msg)"
  unfolding bc1_def by (rule broadcast_no_py) simp

lemma bc2_no_py: "bc2 f a b \<noteq> Inl (PyException msg)"
  unfolding bc2_def by (rule broadcast_no_py) (rule bc1_no_py)

lemma bc3_no_py: "bc3 f a b \<noteq> Inl (PyException msg)"
  unfolding bc3_def by (rule broadcast_no_py) (rule bc2_no_py)

lemma np_binop_no_py: "np_binop f a b \<noteq> Inl (PyException msg)"
  by (cases a; cases b) (simp_all add: and_then_no_py bc1_no_py bc2_no_py bc3_no_py)

lemma check_width_no_py: "check_width d m \<noteq> Inl (PyException msg)"
  by (simp add: check_width_def)

lemma keras_rows_no_py: "keras_rows ev d x \<noteq> Inl (PyException msg)"
proof (cases x)
  case (KSparse m)
  then show ?thesis by (simp add: check_width_no_py split: sum.splits)
next
  case (KDense a)
  then show ?thesis by (cases a) (simp_all add: check_width_no_py)
qed

lemma to_latent_no_py: "to_latent self ev eps x \<noteq> Inl (PyException msg)"
  unfolding to_latent_def
  by (rule and_then_no_py) (simp_all add: keras_rows_no_py Let_def split: encoder_kind.splits)

lemma mean_axis0_no_py: "mean_axis0 m \<noteq> Inl (PyException msg)"
  by (simp add: mean_axis0_def split: list.splits)

lemma numpy_average_no_py: "numpy_average_axis0 l \<noteq> Inl (PyException msg)"
  by (cases l) (simp_all add: and_then_no_py mean_axis0_no_py)

lemma avg_vector_no_py: "avg_vector self ev eps x \<noteq> Inl (PyException msg)"
  unfolding avg_vector_def
  by (rule and_then_no_py) (simp_all add: to_latent_no_py numpy_average_no_py)

lemma dot_A_no_py: "dot_A x \<noteq> Inl (PyException msg)"
  by (cases x) simp_all

lemma random_choice_no_py: "random_choice n k ind \<noteq> Inl (PyException msg)"
  by (simp add: random_choice_def)

lemma reconstruct_no_py: "reconstruct self ev x u \<noteq> Inl (PyException msg)"
  by (simp add: reconstruct_def and_then_no_py keras_rows_no_py split: option.splits)

lemma predict_delta_no_py: "predict_delta self ev dr ctrl_x stim_x \<noteq> Inl (PyException msg)"
  unfolding predict_delta_def Let_def
  by (intro and_then_no_py random_choice_no_py np_binop_no_py)
     (simp_all add: and_then_no_py dot_A_no_py avg_vector_no_py)

lemma predict_cells_no_py: "predict_cells self ev dr delta ctrl_pred \<noteq> Inl (PyException msg)"
  unfolding predict_cells_def
  by (intro and_then_no_py np_binop_no_py reconstruct_no_py)
     (simp_all add: and_then_no_py dot_A_no_py to_latent_no_py)

lemma target_cells_no_py:
  "target_cells ev adata conditions ad ct \<noteq> Inl (PyException msg)"
  by (simp add: target_cells_def split: option.splits sum.splits)

lemma predict_subsets_fail:
  "predict_subsets ev adata conditions key = Inl e \<Longrightarrow>
     predict self ev dr adata conditions ad ct key = Inl e"
  by (simp add: predict_def and_then_def)

lemma predict_both:
  "predict_subsets ev adata conditions key = Inr p \<Longrightarrow> ct \<noteq> None \<Longrightarrow> ad \<noteq> None \<Longrightarrow>
     predict self ev dr adata conditions ad ct key = Inl (PyException both_given)"
  by (cases p) (simp add: predict_def and_then_def)

lemma predict_neither:
  "predict_subsets ev adata conditions key = Inr p \<Longrightarrow>
     predict self ev dr adata conditions None None key = Inl (PyException none_given)"
  by (cases p) (simp add: predict_def and_then_def)

lemma predict_one:
  assumes "predict_subsets ev adata conditions key = Inr p" and "(ct = None) \<noteq> (ad = None)"
  shows "predict self ev dr adata conditions ad ct key \<noteq> Inl (PyException msg)"
proof -
  obtain ctrl_x stim_x where p: "p = (ctrl_x, stim_x)"
    by (cases p)
  have "predict self ev dr adata conditions ad ct key =
      and_then (target_cells ev adata conditions ad ct) (\<lambda>ctrl_pred.
      and_then (predict_delta self ev dr ctrl_x stim_x) (\<lambda>delta.
      and_then (predict_cells self ev dr delta ctrl_pred) (\<lambda>predicted_cells.
        Inr (predicted_cells, delta))))"
    using assms p by (auto simp add: predict_def and_then_Inr)
  also have "\<dots> \<noteq> Inl (PyException msg)"
    by (intro and_then_no_py target_cells_no_py predict_delta_no_py predict_cells_no_py) simp
  finally show ?thesis .
qed

lemma ctrl_stim0: "ctrl_stim adata0 conds0 = Inr (ctrl0, stim0)"
  by (simp add: ctrl_stim_def dict_get_def and_then_def select_def filter_mask_def
      adata0_def conds0_def ctrl0_def stim0_def)

lemma subsets0: "predict_subsets ev0 adata0 conds0 (ObsStr ''all'') = Inr (ctrl0, stim0)"
  by (simp add: predict_subsets_def ctrl_stim0 and_then_def balance_both_def balance_def ev0_def)

lemma init_no_decoder: "decoder_model (init xd zd kw w0) = None"
  by (simp add: init_def Let_def)

lemma train_start_decoder: "decoder_model (fst (train_start self w ir)) = decoder_model self"
  by (simp add: train_start_def split: option.splits)

lemma train_keeps_decoder:
  "decoder_model (fst (fst (train self w ev perms td uv vd ne bs esl th ir sh))) = decoder_model self"
  using train_start_decoder [of self w ir]
  by (auto simp add: train_def split: prod.splits sum.splits)

lemma reconstruct_no_decoder:
  "decoder_model self = None \<Longrightarrow> reconstruct self ev data u = Inl (AttributeError ''decoder_model'')"
  by (simp add: reconstruct_def)

lemma and_then_not_Inr:
  "(\<And>v. f v \<noteq> Inr r) \<Longrightarrow> and_then x f \<noteq> Inr r"
  by (cases x) (simp_all add: and_then_def)

lemma and_then_fails:
  "(\<And>v. x \<noteq> Inr v) \<Longrightarrow> and_then x f \<noteq> Inr r"
  by (cases x) (auto simp add: and_then_def)

lemma interpolation_no_decoder:
  assumes "decoder_model self = None"
  shows "linear_interpolation self ev e1 e2 s d n \<noteq> Inr r"
  unfolding linear_interpolation_def linear_interpolation_with_def
  by (intro and_then_not_Inr) (simp add: reconstruct_no_decoder [OF assms] Let_def)

lemma predict_cells_no_decoder:
  assumes "decoder_model self = None"
  shows "predict_cells self ev dr delta ctrl_pred \<noteq> Inr r"
  unfolding predict_cells_def
  by (intro and_then_not_Inr) (simp add: reconstruct_no_decoder [OF assms])

lemma predict_no_decoder:
  assumes "decoder_model self = None"
  shows "predict self ev dr a c ad ct k \<noteq> Inr r"
proof (cases "predict_subsets ev a c k")
  case (Inl e)
  then show ?thesis by (simp add: predict_def and_then_def)
next
  case (Inr p)
  obtain ctrl_x stim_x where p: "p = (ctrl_x, stim_x)"
    by (cases p)
  have "and_then (target_cells ev a c ad ct) (\<lambda>ctrl_pred.
      and_then (predict_delta self ev dr ctrl_x stim_x) (\<lambda>delta.
      and_then (predict_cells self ev dr delta ctrl_pred) (\<lambda>predicted_cells.
        Inr (predicted_cells, delta)))) \<noteq> Inr r"
    by (rule and_then_not_Inr, rule and_then_not_Inr, rule and_then_fails,
        rule predict_cells_no_decoder [OF assms])
  then show ?thesis
    using Inr p by (auto simp add: predict_def and_then_Inr)
qed

lemma train_start_no_py: "snd (train_start self w ir) \<noteq> Inl (PyException msg)"
  by (simp add: train_start_def split: option.splits)

lemma train_start_vae_model: "vae_model (fst (train_start self w ir)) = vae_model self"
  by (simp add: train_start_def split: option.splits)

lemma train_start_compiled: "compiled (fst (train_start self w ir)) = compiled self"
  by (simp add: train_start_def split: option.splits)

lemma train_start_ok:
  "ir \<or> checkpoints w (model_to_use self) \<noteq> None \<Longrightarrow> snd (train_start self w ir) = Inr ()"
  by (auto simp add: train_start_def split: option.splits)

lemma train_start_fails:
  "\<not> ir \<Longrightarrow> checkpoints w (model_to_use self) = None \<Longrightarrow>
     train_start self w ir = (self, Inl (ValueError ''The passed save_path is not a valid checkpoint''))"
  by (simp add: train_start_def)

lemma check_xy_no_py: "check_xy ev m x \<noteq> Inl (PyException msg)"
  unfolding check_xy_def
  by (intro and_then_no_py keras_rows_no_py) simp

lemma fit_no_py:
  "fit ev w perms m c x v epochs bs sh pat md \<noteq> Inl (PyException msg)"
proof (cases c)
  case False
  then show ?thesis by (simp add: fit_def)
next
  case True
  have v: "(case v of None \<Rightarrow> Inr None
            | Some v \<Rightarrow> and_then (check_xy ev m v) (\<lambda>r. Inr (Some r))) \<noteq> Inl (PyException msg)"
    by (cases v) (simp_all add: and_then_no_py check_xy_no_py)
  show ?thesis
    using True unfolding fit_def
    by (simp, intro and_then_no_py check_xy_no_py v) simp
qed

lemma train_config_error:
  assumes "snd (train_start self w ir) = Inr ()"
  shows "train self w ev perms td True None ne bs esl th ir sh
           = ((fst (train_start self w ir), w), Inl (PyException no_valid_data))"
  using assms by (cases "train_start self w ir") (simp add: train_def)

lemma train_restore_error:
  assumes "\<not> ir" "checkpoints w (model_to_use self) = None"
  shows "train self w ev perms td uv vd ne bs esl th ir sh
           = ((self, w), Inl (ValueError ''The passed save_path is not a valid checkpoint''))"
  by (simp add: train_def train_start_fails [OF assms])

lemma train_no_py:
  assumes "\<not> (uv \<and> vd = None)"
  shows "snd (train self w ev perms td uv vd ne bs esl th ir sh) \<noteq> Inl (PyException msg)"
proof -
  obtain self1 r where ts: "train_start self w ir = (self1, r)"
    by (cases "train_start self w ir")
  show ?thesis
  proof (cases r)
    case (Inl e)
    then have "e \<noteq> PyException msg"
      using train_start_no_py [of self w ir msg] ts by simp
    then show ?thesis using ts Inl by (simp add: train_def)
  next
    case (Inr u)
    show ?thesis
    proof (cases "if sh then (case shuffle_data ev td of Inl m \<Rightarrow> Inl (CollaboratorError m)
                              | Inr d \<Rightarrow> Inr d) else Inr td")
      case (Inl e)
      then have "e \<noteq> PyException msg"
        by (auto split: if_splits sum.splits)
      then show ?thesis using ts Inr Inl assms by (auto simp add: train_def)
    next
      case data: (Inr d)
      define v where "v = (if uv then map_option X vd else None)"
      define res where "res = fit ev w perms (vae_model self1) (compiled self1) (X d) v ne bs sh esl th"
      have f: "res \<noteq> Inl (PyException msg)"
        unfolding res_def by (rule fit_no_py)
      have "train self w ev perms td uv vd ne bs esl th ir sh =
          (case res of
             Inl e \<Rightarrow> ((self1, w), Inl e)
           | Inr st \<Rightarrow> ((self1\<lparr>vae_model := net st\<rparr>, save_models (net st) w), Inr st))"
        using ts Inr data assms by (auto simp add: train_def v_def res_def)
      then show ?thesis
        using f by (cases res) simp_all
    qed
  qed
qed

lemma seen_early_stopping: "seen (early_stopping pat md c st) = seen st"
  by (simp add: early_stopping_def split: option.splits)

lemma stop_early_stopping_None: "stop_training (early_stopping pat md None st) = stop_training st"
  by (simp add: early_stopping_def)

lemma fit_epochs_seen:
  "\<exists>k\<le>length es.
     seen (fit_epochs ev sh perms rows val bs pat md es st)
       = seen st @ map (\<lambda>e. if sh then take_rows rows (perms e) else rows) (take k es)"
proof (induction es arbitrary: st)
  case Nil
  then show ?case by simp
next
  case (Cons e es)
  show ?case
  proof (cases "stop_training st")
    case True
    then have "seen (fit_epochs ev sh perms rows val bs pat md (e # es) st)
        = seen st @ map (\<lambda>e. if sh then take_rows rows (perms e) else rows) (take 0 (e # es))"
      by simp
    then show ?thesis by blast
  next
    case False
    define rows_e where "rows_e = (if sh then take_rows rows (perms e) else rows)"
    define trained where "trained = same_widths (net st) (train_epoch ev (net st) rows_e bs)"
    define st2 where "st2 = early_stopping pat md (map_option (val_loss ev trained) val)
        (st\<lparr>net := trained, seen := seen st @ [rows_e]\<rparr>)"
    have step: "fit_epochs ev sh perms rows val bs pat md (e # es) st
        = fit_epochs ev sh perms rows val bs pat md es st2"
      using False by (simp add: Let_def st2_def trained_def rows_e_def)
    have s2: "seen st2 = seen st @ [rows_e]"
      by (simp add: st2_def seen_early_stopping)
    obtain k where k: "k \<le> length es"
      "seen (fit_epochs ev sh perms rows val bs pat md es st2)
         = seen st2 @ map (\<lambda>e. if sh then take_rows rows (perms e) else rows) (take k es)"
      using Cons.IH [of st2] by blast
    have "seen (fit_epochs ev sh perms rows val bs pat md (e # es) st)
        = seen st @ map (\<lambda>e. if sh then take_rows rows (perms e) else rows) (take (Suc k) (e # es))"
      using step k(2) s2 by (simp add: rows_e_def)
    moreover have "Suc k \<le> length (e # es)"
      using k(1) by simp
    ultimately show ?thesis by blast
  qed
qed

lemma fit_seen:
  assumes "fit ev w perms m c x v epochs bs sh pat md = Inr st"
  shows "\<exists>rows k. check_xy ev m x = Inr rows \<and> k \<le> epochs
           \<and> seen st = map (\<lambda>e. if sh then take_rows rows (perms e) else rows) [0..<k]"
proof -
  from assms have c: c
    by (auto simp add: fit_def split: if_splits)
  from assms c obtain rows where rows: "check_xy ev m x = Inr rows"
    by (cases "check_xy ev m x") (simp_all add: fit_def and_then_def)
  from assms c rows obtain val where
    st: "st = fit_epochs ev sh perms rows val bs pat md [0..<epochs]
               \<lparr>net = m, best = None, wait = 0, stop_training = False, seen = []\<rparr>"
    by (auto simp add: fit_def and_then_def split: sum.splits if_splits)
  obtain k where k: "k \<le> length [0..<epochs]"
    "seen st = [] @ map (\<lambda>e. if sh then take_rows rows (perms e) else rows) (take k [0..<epochs])"
    using fit_epochs_seen [of "[0..<epochs]" ev sh perms rows val bs pat md
        "\<lparr>net = m, best = None, wait = 0, stop_training = False, seen = []\<rparr>"] st
    by auto
  have "take k [0..<epochs] = [0..<k]"
    using k(1) by (simp add: take_upt)
  then show ?thesis
    using rows k by auto
qed

lemma train_Inr:
  assumes "train self w ev perms td uv vd ne bs esl th ir sh = (sw, Inr st)"
  shows "\<exists>d. (if sh then (case shuffle_data ev td of Inl m \<Rightarrow> Inl (CollaboratorError m)
                          | Inr d \<Rightarrow> Inr d) else Inr td) = Inr d
          \<and> fit ev w perms (vae_model self) (compiled self) (X d)
               (if uv then map_option X vd else None) ne bs sh esl th = Inr st
          \<and> sw = ((fst (train_start self w ir))\<lparr>vae_model := net st\<rparr>, save_models (net st) w)"
proof -
  obtain self1 r where ts: "train_start self w ir = (self1, r)"
    by (cases "train_start self w ir")
  have m: "vae_model self1 = vae_model self" "compiled self1 = compiled self"
    using train_start_vae_model [of self w ir] train_start_compiled [of self w ir] ts by simp_all
  show ?thesis
    using assms ts m
    by (auto simp add: train_def split: sum.splits if_splits)
qed






lemma check_xy0: "check_xy ev0 (vae_model self0) (X adata0) = Inr [[1], [3]]"
  by (simp add: check_xy_def and_then_def check_width_def fixture_defs adata0_def)

lemma fit0:
  "map_sum id seen
     (fit ev0 world0 perms0 (vae_model self0) (compiled self0) (X adata0) None 2 1 True 20 0.0025)
   = Inr [[[1], [3]], [[3], [1]]]"
proof -
  have u: "[0..<2] = [0, Suc 0]"
    by (simp add: upt_rec)
  have c: "compiled self0" "results_dir world0"
    by (simp_all add: fixture_defs world0_def)
  show ?thesis
    using c
    by (simp add: fit_def check_xy0 and_then_def u Let_def early_stopping_def perms0_def
        take_rows_def)
qed

lemma train0:
  "\<exists>st. train self0 world0 ev0 perms0 adata0 False None 2 1 20 0.0025 True True
           = ((self0\<lparr>vae_model := net st\<rparr>, save_models (net st) world0), Inr st)
         \<and> seen st = [[[1], [3]], [[3], [1]]]"
proof -
  have s: "train_start self0 world0 True = (self0, Inr ())"
    by (simp add: train_start_def fixture_defs)
  have d: "shuffle_data ev0 adata0 = Inr adata0"
    by (simp add: ev0_def)
  show ?thesis
    using fit0
    by (cases "fit ev0 world0 perms0 (vae_model self0) (compiled self0) (X adata0) None 2 1 True
          20 0.0025")
      (simp_all add: train_def s d)
qed

lemma model_path0: "os_path_join (model_to_use self0) [''vae.h5''] = ''./models/test/vae.h5''"
  by (simp add: os_path_join_def join2_def fixture_defs)

lemma sequence_Inr: "sequence (map (\<lambda>x. Inr (g x)) xs) = Inr (map g xs)"
  by (induction xs) simp_all

lemma bc1_same_length: "length a = length b \<Longrightarrow> bc1 f a b = Inr (map2 f a b)"
  by (simp add: bc1_def broadcast_def case_prod_unfold sequence_Inr)

lemma mean_axis0_rows:
  "m \<noteq> [] \<Longrightarrow>
     mean_axis0 m = Inr (map (\<lambda>j. sum_list (column m j) / real (length m)) [0..<length (hd m)])"
  by (cases m) (simp_all add: mean_axis0_def)

lemma hd_sample_z: "mu \<noteq> [] \<Longrightarrow> length (hd (sample_z zd mu lv eps)) = zd"
  using has_shape_row [OF has_shape_sample_z, of 0 mu zd lv eps]
  by (simp add: hd_conv_nth sample_z_def)

lemma avg_vector_OnlyZ:
  assumes "encoder_model self = OnlyZ"
    and "keras_rows ev (in_dim (vae_model self)) data = Inr rows" and "rows \<noteq> []"
  shows "avg_vector self ev eps data =
     Inr (A1 (map (\<lambda>j. sum_list (column (sample_z (units (mean_layer (vae_model self)))
                    (encoder_mean (vae_model self) rows)
                    (encoder_log_var (vae_model self) rows) eps) j) / real (length rows))
        [0..<units (mean_layer (vae_model self))]))"
proof -
  let ?z = "sample_z (units (mean_layer (vae_model self))) (encoder_mean (vae_model self) rows)
              (encoder_log_var (vae_model self) rows) eps"
  have t: "to_latent self ev eps data = Inr (OutputZ ?z)"
    using to_latent_rows [OF assms(2), of eps] assms(1) by simp
  have ne: "encoder_mean (vae_model self) rows \<noteq> []"
    using assms(3) by (simp add: encoder_mean_def)
  have l: "length ?z = length rows"
    by (simp add: sample_z_def encoder_mean_def)
  then have z: "?z \<noteq> []"
    using assms(3) by auto
  have "mean_axis0 ?z = Inr (map (\<lambda>j. sum_list (column ?z j) / real (length ?z))
      [0..<units (mean_layer (vae_model self))])"
    using mean_axis0_rows [OF z] hd_sample_z [OF ne] by simp
  then show ?thesis
    using t l by (simp add: avg_vector_def and_then_def)
qed

lemma avg_vector_OnlyZ_shape:
  assumes "encoder_model self = OnlyZ" and "avg_vector self ev eps data = Inr a"
  shows "\<exists>v. a = A1 v \<and> length v = units (mean_layer (vae_model self))"
proof -
  from assms(2) obtain rows where rows: "keras_rows ev (in_dim (vae_model self)) data = Inr rows"
    by (cases "keras_rows ev (in_dim (vae_model self)) data")
       (simp_all add: avg_vector_def to_latent_def and_then_def)
  show ?thesis
  proof (cases "rows = []")
    case True
    then have "avg_vector self ev eps data = Inl NaNResult"
      using to_latent_rows [OF rows, of eps] assms(1)
      by (simp add: avg_vector_def and_then_def sample_z_def encoder_mean_def mean_axis0_def)
    then show ?thesis using assms(2) by simp
  next
    case False
    then show ?thesis
      using avg_vector_OnlyZ [OF assms(1) rows False, of eps] assms(2) by auto
  qed
qed

lemma avg_vector_MuLogVarZ:
  assumes "encoder_model self = MuLogVarZ" and "avg_vector self ev eps data = Inr a"
  shows "\<exists>m. a = A2 m"
proof -
  from assms(2) obtain rows where rows: "keras_rows ev (in_dim (vae_model self)) data = Inr rows"
    by (cases "keras_rows ev (in_dim (vae_model self)) data")
       (simp_all add: avg_vector_def to_latent_def and_then_def)
  show ?thesis
    using to_latent_rows [OF rows, of eps] assms by (auto simp add: avg_vector_def and_then_def)
qed

lemma and_then_Inr_iff: "and_then r f = Inr y \<longleftrightarrow> (\<exists>v. r = Inr v \<and> f v = Inr y)"
  by (cases r) (simp_all add: and_then_def)

lemma predict_delta_parts:
  assumes "predict_delta self ev dr ctrl_x stim_x = Inr delta"
  shows "\<exists>dc ds lc ls. avg_vector self ev (eps_ctrl dr) dc = Inr lc
           \<and> avg_vector self ev (eps_stim dr) ds = Inr ls
           \<and> np_binop (-) ls lc = Inr delta"
  using assms by (auto simp add: predict_delta_def Let_def and_then_Inr_iff split: if_splits)

lemma predict_delta_OnlyZ:
  assumes "encoder_model self = OnlyZ" and "predict_delta self ev dr ctrl_x stim_x = Inr delta"
  shows "\<exists>v. delta = A1 v \<and> length v = units (mean_layer (vae_model self))"
proof -
  obtain dc ds lc ls where
    c: "avg_vector self ev (eps_ctrl dr) dc = Inr lc"
    and s: "avg_vector self ev (eps_stim dr) ds = Inr ls"
    and d: "np_binop (-) ls lc = Inr delta"
    using predict_delta_parts [OF assms(2)] by blast
  obtain vc where vc: "lc = A1 vc" "length vc = units (mean_layer (vae_model self))"
    using avg_vector_OnlyZ_shape [OF assms(1) c] by blast
  obtain vs where vs: "ls = A1 vs" "length vs = units (mean_layer (vae_model self))"
    using avg_vector_OnlyZ_shape [OF assms(1) s] by blast
  have "bc1 (-) vs vc = Inr (map2 (-) vs vc)"
    using vc(2) vs(2) by (simp add: bc1_same_length)
  then have "delta = A1 (map2 (-) vs vc)"
    using d vc(1) vs(1) by (simp add: and_then_def)
  then show ?thesis
    using vc(2) vs(2) by simp
qed

lemma np_binop_A3: "np_binop f a (A3 t) = Inr r \<Longrightarrow> \<exists>t'. r = A3 t'"
  by (cases a) (auto simp add: and_then_Inr_iff)

lemma reconstruct_A3: "reconstruct self ev (KDense (A3 t)) u \<noteq> Inr r"
  by (simp add: reconstruct_def and_then_def split: option.splits)

lemma to_latent_MuLogVarZ:
  "encoder_model self = MuLogVarZ \<Longrightarrow> to_latent self ev eps data = Inr l \<Longrightarrow>
     \<exists>a b c. l = Outputs3 a b c"
  by (auto simp add: to_latent_def and_then_Inr_iff Let_def)

lemma predict_cells_MuLogVarZ:
  assumes "encoder_model self = MuLogVarZ"
  shows "predict_cells self ev dr delta ctrl_pred \<noteq> Inr r"
proof
  assume "predict_cells self ev dr delta ctrl_pred = Inr r"
  then obtain data l sp where l: "to_latent self ev (eps_pred dr) data = Inr l"
    and sp: "np_binop (+) delta (asarray l) = Inr sp"
    and rc: "reconstruct self ev (KDense sp) True = Inr r"
    by (auto simp add: predict_cells_def and_then_Inr_iff split: if_splits)
  obtain a b c where "l = Outputs3 a b c"
    using to_latent_MuLogVarZ [OF assms l] by blast
  then obtain t where "sp = A3 t"
    using sp np_binop_A3 by fastforce
  then show False
    using rc reconstruct_A3 by blast
qed

lemma predict_Inr_parts:
  assumes "predict self ev dr adata conditions ad ct key = Inr (cells, delta)"
  shows "\<exists>ctrl_x stim_x ctrl_pred. predict_delta self ev dr ctrl_x stim_x = Inr delta
           \<and> predict_cells self ev dr delta ctrl_pred = Inr cells"
  using assms by (auto simp add: predict_def and_then_Inr_iff split: if_splits)

lemma predict_delta_shape:
  assumes "predict self ev dr adata conditions ad ct key = Inr (cells, delta)"
  shows "encoder_model self = OnlyZ
         \<and> (\<exists>v. delta = A1 v \<and> length v = units (mean_layer (vae_model self)))"
proof -
  obtain ctrl_x stim_x ctrl_pred where
    d: "predict_delta self ev dr ctrl_x stim_x = Inr delta"
    and c: "predict_cells self ev dr delta ctrl_pred = Inr cells"
    using predict_Inr_parts [OF assms] by blast
  have k: "encoder_model self = OnlyZ"
    using c predict_cells_MuLogVarZ [of self ev dr delta ctrl_pred cells]
    by (cases "encoder_model self") simp_all
  show ?thesis
    using k predict_delta_OnlyZ [OF k d] by simp
qed

lemma restored0_eq:
  "restored0 = self0\<lparr>vae_model := vae_model self0, compiled := False, encoder_model := OnlyZ,
      decoder_model := Some \<lparr>dec_in = 1, hidden = dec_hidden (vae_model self0),
                              out = out_layer (vae_model self0)\<rparr>\<rparr>"
proof -
  have p: "files world1 (os_path_join (model_to_use self0) [''vae.h5''])
      = Some (VaeFile (vae_model self0))"
    by (simp add: world1_def model_path0)
  have u: "units (mean_layer (vae_model self0)) = z_dim self0"
    "units (out_layer (vae_model self0)) = x_dim self0" "z_dim self0 = 1"
    by (simp_all add: fixture_defs)
  show ?thesis
    unfolding restored0_def restore_model_def p by (simp add: u Let_def)
qed


lemma restored0_fields:
  "encoder_model restored0 = OnlyZ" "z_dim restored0 = 1" "in_dim (vae_model restored0) = 1"
  "units (mean_layer (vae_model restored0)) = 1"
  by (simp_all add: restored0_eq fixture_defs)

lemma to_latent_restored0:
  "to_latent restored0 ev0 eps_zero (KDense (A2 [[1], [3]])) = Inr (OutputZ [[1], [3]])"
  "to_latent restored0 ev0 eps_zero (KDense (A2 [[1]])) = Inr (OutputZ [[1]])"
  "to_latent restored0 ev0 eps_zero (KDense (A2 [[3]])) = Inr (OutputZ [[3]])"
  by (simp_all add: to_latent_def restored0_eq fixture_defs and_then_def check_width_def
      encoder_mean_def encoder_log_var_def sample_z_def dense_apply_def eps_zero_def)

lemma avg_restored0:
  "avg_vector restored0 ev0 eps_zero (KDense (A2 [[1], [3]])) = Inr (A1 [2])"
  "avg_vector restored0 ev0 eps_zero (KDense (A2 [[1]])) = Inr (A1 [1])"
  "avg_vector restored0 ev0 eps_zero (KDense (A2 [[3]])) = Inr (A1 [3])"
  by (simp_all add: avg_vector_def to_latent_restored0 and_then_def mean_axis0_def column_def)

lemma avg_self0:
  "avg_vector self0 ev0 eps_zero (KDense (A2 [[2], [4]])) = Inr (A2 [[4 / 3], [8 / 3]])"
  by (simp add: avg_vector_def to_latent_def fixture_defs and_then_def check_width_def
      encoder_mean_def encoder_log_var_def sample_z_def dense_apply_def eps_zero_def
      t_scale_def t_add_def Let_def)


lemma to_latent_self0_batch:
  "to_latent self0 ev0 eps_zero (KDense (A2 [[2], [4]]))
     = Inr (Outputs3 [[2], [4]] [[0], [0]] [[2], [4]])"
  by (simp add: to_latent_def fixture_defs and_then_def check_width_def
      encoder_mean_def encoder_log_var_def sample_z_def dense_apply_def eps_zero_def Let_def)

lemma avg_restored0_batch:
  "avg_vector restored0 ev0 eps_zero (KDense (A2 [[2], [4]])) = Inr (A1 [3])"
proof -
  have t: "to_latent restored0 ev0 eps_zero (KDense (A2 [[2], [4]])) = Inr (OutputZ [[2], [4]])"
    by (simp add: to_latent_def restored0_eq fixture_defs and_then_def check_width_def
        encoder_mean_def encoder_log_var_def sample_z_def dense_apply_def eps_zero_def)
  show ?thesis
    by (simp add: avg_vector_def t and_then_def mean_axis0_def column_def)
qed

lemma predict_restored0:
  "predict restored0 ev0 draws0 adata0 conds0 (Some adata0) None (ObsStr ''all'')
     = Inr ([[3], [5]], A1 [2])"
proof -
  have t: "target_cells ev0 adata0 conds0 (Some adata0) None = Inr adata0"
    by (simp add: target_cells_def)
  have d: "predict_delta restored0 ev0 draws0 ctrl0 stim0 = Inr (A1 [2])"
    by (simp add: predict_delta_def ctrl0_def stim0_def draws0_def random_choice_def
        and_then_def take_rows_def avg_restored0 bc1_def broadcast_def)
  have r: "reconstruct restored0 ev0 (KDense (A2 [[3], [5]])) True = Inr [[3], [5]]"
    by (simp add: reconstruct_def restored0_eq fixture_defs and_then_def check_width_def
        decoder_apply_def dense_apply_def)
  have c: "predict_cells restored0 ev0 draws0 (A1 [2]) adata0 = Inr [[3], [5]]"
    by (simp add: predict_cells_def adata0_def draws0_def to_latent_restored0 and_then_def
        bc1_def bc2_def broadcast_def r)
  show ?thesis
    by (simp add: predict_def subsets0 and_then_def t d c)
qed

lemma average_and_delta_restored:
  assumes "widths_ok self"
  shows "(encoder_model self = OnlyZ \<and> keras_rows ev (in_dim (vae_model self)) data = Inr rows
            \<and> rows \<noteq> [] \<longrightarrow>
          avg_vector self ev eps data =
            Inr (A1 (map (\<lambda>j. sum_list (column (sample_z (z_dim self)
                               (encoder_mean (vae_model self) rows)
                               (encoder_log_var (vae_model self) rows) eps) j)
                             / real (length rows))
                   [0..<z_dim self])))
       \<and> (predict self ev dr adata conditions ad ct key = Inr (cells, delta) \<longrightarrow>
            encoder_model self = OnlyZ \<and> (\<exists>v. delta = A1 v \<and> length v = z_dim self))"
proof -
  have u: "units (mean_layer (vae_model self)) = z_dim self"
    using assms by (simp add: widths_ok_def)
  show ?thesis
    using avg_vector_OnlyZ [of self ev data rows eps]
      predict_delta_shape [of self ev dr adata conditions ad ct key cells delta]
    unfolding u by blast
qed

section \<open>The widths are kept\<close>

lemma widths_ok_init: "widths_ok (init xd zd kw w0)"
  by (simp add: widths_ok_def init_def with_widths_def Let_def)

lemma units_early_stopping:
  "units (mean_layer (net (early_stopping pat md c st))) = units (mean_layer (net st))"
  "units (log_var_layer (net (early_stopping pat md c st))) = units (log_var_layer (net st))"
  by (simp_all add: early_stopping_def split: option.splits)

lemma units_fit_epochs:
  "units (mean_layer (net (fit_epochs ev sh perms rows val bs pat md es st)))
     = units (mean_layer (net st))
   \<and> units (log_var_layer (net (fit_epochs ev sh perms rows val bs pat md es st)))
     = units (log_var_layer (net st))"
proof (induction es arbitrary: st)
  case Nil
  then show ?case by simp
next
  case (Cons e es)
  show ?case
  proof (cases "stop_training st")
    case True
    then show ?thesis by simp
  next
    case False
    then show ?thesis
      by (simp add: Let_def Cons.IH units_early_stopping same_widths_def)
  qed
qed

lemma units_fit:
  assumes "fit ev w perms m c x v epochs bs sh pat md = Inr st"
  shows "units (mean_layer (net st)) = units (mean_layer m)
         \<and> units (log_var_layer (net st)) = units (log_var_layer m)"
proof -
  from assms obtain rows val where
    "st = fit_epochs ev sh perms rows val bs pat md [0..<epochs]
            \<lparr>net = m, best = None, wait = 0, stop_training = False, seen = []\<rparr>"
    by (auto simp add: fit_def and_then_Inr_iff split: if_splits)
  then show ?thesis
    using units_fit_epochs [of ev sh perms rows val bs pat md "[0..<epochs]"
        "\<lparr>net = m, best = None, wait = 0, stop_training = False, seen = []\<rparr>"]
    by simp
qed

lemma train_start_z_dim: "z_dim (fst (train_start self w ir)) = z_dim self"
  by (simp add: train_start_def split: option.splits)

lemma widths_ok_train:
  assumes "widths_ok self"
  shows "widths_ok (fst (fst (train self w ev perms td uv vd ne bs esl th ir sh)))"
proof (cases "snd (train self w ev perms td uv vd ne bs esl th ir sh)")
  case (Inl e)
  then have "fst (fst (train self w ev perms td uv vd ne bs esl th ir sh)) = fst (train_start self w ir)"
    by (cases "train_start self w ir") (auto simp add: train_def split: sum.splits if_splits)
  then show ?thesis
    using assms train_start_vae_model [of self w ir] train_start_z_dim [of self w ir]
    by (simp add: widths_ok_def)
next
  case (Inr st)
  then obtain sw where t: "train self w ev perms td uv vd ne bs esl th ir sh = (sw, Inr st)"
    by (cases "train self w ev perms td uv vd ne bs esl th ir sh") simp
  from train_Inr [OF t] obtain d :: adata where
    f: "fit ev w perms (vae_model self) (compiled self) (X d)
          (if uv then map_option X vd else None) ne bs sh esl th = Inr st"
    and s: "sw = ((fst (train_start self w ir))\<lparr>vae_model := net st\<rparr>, save_models (net st) w)"
    by blast
  show ?thesis
    using assms units_fit [OF f] t s train_start_z_dim [of self w ir]
    by (simp add: widths_ok_def)
qed

lemma restore_model_ok:
  assumes "restore_model self w d0 = (self', Inr ())"
  shows "\<exists>stored. files w (os_path_join (model_to_use self) [''vae.h5'']) = Some (VaeFile stored)
           \<and> units (mean_layer stored) = z_dim self \<and> units (out_layer stored) = x_dim self
           \<and> self' = self\<lparr>vae_model := stored, compiled := False, encoder_model := OnlyZ,
                  decoder_model := Some \<lparr>dec_in = z_dim self, hidden = dec_hidden stored,
                                          out = out_layer stored\<rparr>\<rparr>"
proof (cases "files w (os_path_join (model_to_use self) [''vae.h5''])")
  case None
  then show ?thesis using assms by (simp add: restore_model_def)
next
  case (Some a)
  show ?thesis
  proof (cases a)
    case (VaeFile stored)
    then show ?thesis
      using assms Some by (simp add: restore_model_def Let_def split: if_splits)
  next
    case (EncoderFile stored)
    then show ?thesis using assms Some by (simp add: restore_model_def)
  next
    case LogFile
    then show ?thesis using assms Some by (simp add: restore_model_def)
  qed
qed

lemma widths_ok_restore:
  assumes "restore_model self w d0 = (self', Inr ())"
    and "\<And>stored. files w (os_path_join (model_to_use self) [''vae.h5'']) = Some (VaeFile stored)
           \<Longrightarrow> units (log_var_layer stored) = units (mean_layer stored)"
  shows "widths_ok self' \<and> encoder_model self' = OnlyZ \<and> decoder_model self' \<noteq> None"
  using restore_model_ok [OF assms(1)] assms(2)
  by (auto simp add: widths_ok_def)

section \<open>Claims\<close>




text \<open>
  C2. On the small instance as constructed, whose encoder model has the three outputs mean,
  log-variance and z, \<^verbatim>\<open>to_latent\<close> returns the list of the three arrays and the
  average-vector operation on a batch of two cells takes the mean across the three outputs:
  an array of two rows, one per cell, and no single latent vector. On the same instance
  after \<^verbatim>\<open>restore_model\<close>, whose encoder model has the one output z, the operation on the
  same batch returns the mean across the two cells, one vector of \<^verbatim>\<open>z_dim\<close> entries.
\<close>

theorem C2_average_on_constructed_object:
  "encoder_model self0 = MuLogVarZ
   \<and> to_latent self0 ev0 eps_zero (KDense (A2 [[2], [4]]))
       = Inr (Outputs3 [[2], [4]] [[0], [0]] [[2], [4]])
   \<and> avg_vector self0 ev0 eps_zero (KDense (A2 [[2], [4]])) = Inr (A2 [[4 / 3], [8 / 3]])
   \<and> encoder_model restored0 = OnlyZ
   \<and> avg_vector restored0 ev0 eps_zero (KDense (A2 [[2], [4]])) = Inr (A1 [3])"
proof -
  have k: "encoder_model self0 = MuLogVarZ"
    by (simp add: fixture_defs)
  show ?thesis
    by (simp only: k to_latent_self0_batch avg_self0 restored0_fields avg_restored0_batch simp_thms)
qed

text \<open>
  C3 (amended). \<^verbatim>\<open>predict\<close> first selects the control and the stimulated subset and
  balances them; a failure there is the result of the call. When that succeeds,
  \<^verbatim>\<open>predict\<close> raises the configuration error exactly when both or neither of
  \<^verbatim>\<open>celltype_to_predict\<close> and \<^verbatim>\<open>adata_to_predict\<close> are given, whatever the object, the
  random draws and the cells to predict are: before extraction, sampling and encoding.
\<close>

theorem C3_predict_configuration_error:
  "(\<forall>e. predict_subsets ev adata conditions key = Inl e \<longrightarrow>
        predict self ev dr adata conditions ad ct key = Inl e)
   \<and> (\<forall>p. predict_subsets ev adata conditions key = Inr p \<longrightarrow>
        (ct \<noteq> None \<and> ad \<noteq> None \<longrightarrow>
           predict self ev dr adata conditions ad ct key = Inl (PyException both_given))
      \<and> (ct = None \<and> ad = None \<longrightarrow>
           predict self ev dr adata conditions ad ct key = Inl (PyException none_given))
      \<and> ((ct = None) \<noteq> (ad = None) \<longrightarrow>
           (\<forall>msg. predict self ev dr adata conditions ad ct key \<noteq> Inl (PyException msg))))"
  using predict_subsets_fail [of ev adata conditions key _ self dr ad ct]
    predict_both [of ev adata conditions key _ ct ad self dr]
    predict_neither [of ev adata conditions key _ self dr]
    predict_one [of ev adata conditions key _ ct ad self dr]
  by blast

text \<open>The theorem at the small instance: both given, neither given, one given, no conditions.\<close>

theorem C3_predict_configuration_error_witness:
  "predict self0 ev0 draws0 adata0 conds0 (Some adata0) (Some ''CD4T'') (ObsStr ''all'')
     = Inl (PyException both_given)
   \<and> predict self0 ev0 draws0 adata0 conds0 None None (ObsStr ''all'')
     = Inl (PyException none_given)
   \<and> predict self0 ev0 draws0 adata0 conds0 (Some adata0) None (ObsStr ''all'')
     \<noteq> Inl (PyException none_given)
   \<and> predict self0 ev0 draws0 adata0 [] None None (ObsStr ''all'') = Inl (KeyError ''ctrl'')"
proof -
  have f: "predict_subsets ev0 adata0 [] (ObsStr ''all'') = Inl (KeyError ''ctrl'')"
    by (simp add: predict_subsets_def ctrl_stim_def dict_get_def and_then_def adata0_def)
  show ?thesis
    using C3_predict_configuration_error
        [of ev0 adata0 conds0 "ObsStr ''all''" self0 draws0 "Some adata0" "Some ''CD4T''"]
      C3_predict_configuration_error
        [of ev0 adata0 conds0 "ObsStr ''all''" self0 draws0 None None]
      C3_predict_configuration_error
        [of ev0 adata0 conds0 "ObsStr ''all''" self0 draws0 "Some adata0" None]
      C3_predict_configuration_error
        [of ev0 adata0 "[]" "ObsStr ''all''" self0 draws0 None None]
      subsets0 f
    by simp
qed

text \<open>
  C3 as stated fails: with neither argument given and no entry \<^verbatim>\<open>"ctrl"\<close> in
  \<^verbatim>\<open>conditions\<close>, the selection raises \<^verbatim>\<open>KeyError\<close> and no configuration error; with
  both arguments given and a balancer that fails, the failure of the balancer is raised: the
  subsets are selected and balanced before the arguments are checked.
\<close>

theorem C3_counterexample:
  "predict self0 ev0 draws0 adata0 [] None None (ObsStr ''all'') = Inl (KeyError ''ctrl'')
   \<and> predict self0 ev_failing draws0 adata0 conds0 (Some adata0) (Some ''CD4T'') (ObsStr ''all'')
       = Inl (CollaboratorError ''balancer failed'')"
proof -
  have a: "predict_subsets ev0 adata0 [] (ObsStr ''all'') = Inl (KeyError ''ctrl'')"
    by (simp add: predict_subsets_def ctrl_stim_def dict_get_def and_then_def adata0_def)
  have b: "predict_subsets ev_failing adata0 conds0 (ObsStr ''all'')
      = Inl (CollaboratorError ''balancer failed'')"
    by (simp add: predict_subsets_def ctrl_stim0 and_then_def balance_both_def balance_def
        ev_failing_def)
  show ?thesis
    by (simp add: predict_def a b and_then_def)
qed

text \<open>
  C4. At the small instance, whose \<^verbatim>\<open>model_path\<close> is \<^verbatim>\<open>./models/test\<close>, \<^verbatim>\<open>train\<close>
  completes and writes \<^verbatim>\<open>vae.h5\<close> and \<^verbatim>\<open>encoder.h5\<close> in the working directory;
  nothing is written under \<^verbatim>\<open>./models/test\<close>, where \<^verbatim>\<open>restore_model\<close> then looks for
  \<^verbatim>\<open>vae.h5\<close> and fails.
\<close>

theorem C4_models_saved_in_working_directory:
  "os_path_join (model_to_use self0) [''vae.h5''] = ''./models/test/vae.h5''
   \<and> \<not> isl (snd (train self0 world0 ev0 perms0 adata0 False None 2 1 20 0.0025 True True))
   \<and> files (snd (fst (train self0 world0 ev0 perms0 adata0 False None 2 1 20 0.0025 True True)))
        ''vae.h5'' \<noteq> None
   \<and> files (snd (fst (train self0 world0 ev0 perms0 adata0 False None 2 1 20 0.0025 True True)))
        ''encoder.h5'' \<noteq> None
   \<and> files (snd (fst (train self0 world0 ev0 perms0 adata0 False None 2 1 20 0.0025 True True)))
        ''./models/test/vae.h5'' = None
   \<and> files (snd (fst (train self0 world0 ev0 perms0 adata0 False None 2 1 20 0.0025 True True)))
        ''./models/test/encoder.h5'' = None
   \<and> snd (restore_model
            (fst (fst (train self0 world0 ev0 perms0 adata0 False None 2 1 20 0.0025 True True)))
            (snd (fst (train self0 world0 ev0 perms0 adata0 False None 2 1 20 0.0025 True True)))
            dec0)
       = Inl (OSError ''Unable to open file'')"
proof -
  obtain st where t: "train self0 world0 ev0 perms0 adata0 False None 2 1 20 0.0025 True True
           = ((self0\<lparr>vae_model := net st\<rparr>, save_models (net st) world0), Inr st)"
    using train0 by blast
  have p: "model_to_use (self0\<lparr>vae_model := net st\<rparr>) = model_to_use self0"
    by simp
  have f: "files (save_models (net st) world0) ''./models/test/vae.h5'' = None"
    "files (save_models (net st) world0) ''./models/test/encoder.h5'' = None"
    "files (save_models (net st) world0) ''vae.h5'' \<noteq> None"
    "files (save_models (net st) world0) ''encoder.h5'' \<noteq> None"
    by (simp_all add: save_models_def os_path_join_def world0_def)
  have r: "snd (restore_model (self0\<lparr>vae_model := net st\<rparr>) (save_models (net st) world0) dec0)
      = Inl (OSError ''Unable to open file'')"
    unfolding restore_model_def p model_path0 by (simp add: f)
  show ?thesis
    unfolding t by (simp add: model_path0 f r)
qed




text \<open>
  C6. For every non-empty batch of \<open>n\<close> samples, the training loss \<open>vae_loss\<close> equals
  the mean over the batch of half the sum over the \<open>x_dim\<close> features of the squared
  reconstruction differences plus 0.001 times half the sum over the \<open>z_dim\<close> latent
  dimensions of \<open>exp(log_var) + mean^2 - 1 - log_var\<close>; and when the mean and the
  log-variance are 0 in every latent dimension, the KL term is exactly 0 for every sample.
\<close>

theorem C6_vae_loss_formula:
  assumes "0 < n"
    and "has_shape n xd y_true" and "has_shape n xd y_pred"
    and "has_shape n zd mu" and "has_shape n zd log_var"
  shows "vae_loss mu log_var y_true y_pred
           = (\<Sum>i<n. (\<Sum>j<xd. (y_true ! i ! j - y_pred ! i ! j)\<^sup>2) / 2
                + 0.001 * ((\<Sum>j<zd. exp (log_var ! i ! j) + (mu ! i ! j)\<^sup>2 - 1
                     - log_var ! i ! j) / 2)) / real n
         \<and> ((\<forall>i<n. \<forall>j<zd. mu ! i ! j = 0 \<and> log_var ! i ! j = 0)
              \<longrightarrow> kl_loss mu log_var = replicate n 0)"
  using assms vae_loss_as_spec [of n xd y_true y_pred zd mu log_var]
    kl_loss_zero [of n zd mu log_var]
  by (simp add: spec_loss_def spec_recon_def spec_kl_def)

theorem C6_vae_loss_formula_witness:
  "vae_loss [[0, 0]] [[0, 0]] [[1, 2, 3]] [[0, 0, 1]] = 9 / 2
   \<and> kl_loss [[0, 0]] [[0, 0]] = [0]"
proof -
  have s: "has_shape 1 3 [[1, 2, 3]]" "has_shape 1 3 [[0, 0, 1]]" "has_shape 1 2 [[0, 0]]"
    by (simp_all add: has_shape_def)
  have z: "\<forall>i<1::nat. \<forall>j<2::nat. [[0::real, 0]] ! i ! j = 0 \<and> [[0::real, 0]] ! i ! j = 0"
    by (simp add: less_Suc_eq numeral_2_eq_2)
  have "(\<Sum>j<3::nat. ([[1::real, 2, 3]] ! 0 ! j - [[0, 0, 1]] ! 0 ! j)\<^sup>2) = 9"
    by (simp add: numeral_3_eq_3)
  moreover have "(\<Sum>j<2::nat. exp ([[0::real, 0]] ! 0 ! j) + ([[0::real, 0]] ! 0 ! j)\<^sup>2 - 1
      - [[0::real, 0]] ! 0 ! j) = 0"
    by (simp add: numeral_2_eq_2)
  ultimately show ?thesis
    using C6_vae_loss_formula [of 1 3 "[[1, 2, 3]]" "[[0, 0, 1]]" 2 "[[0, 0]]" "[[0, 0]]"] s z
    by simp
qed

text \<open>
  C7 (amended). When \<^verbatim>\<open>initial_run\<close> is true, or a checkpoint exists at the model path,
  \<^verbatim>\<open>train\<close> with \<^verbatim>\<open>use_validation\<close> true and no \<^verbatim>\<open>valid_data\<close> raises the
  configuration error, with the weights and the files as they were. When a validation set
  is given or validation is not requested, that error is never raised. When
  \<^verbatim>\<open>initial_run\<close> is false and there is no checkpoint, restoring fails first, whatever the
  validation arguments are.
\<close>

theorem C7_validation_check:
  "((ir \<or> checkpoints w (model_to_use self) \<noteq> None) \<longrightarrow>
      train self w ev perms td True None ne bs esl th ir sh
        = ((fst (train_start self w ir), w), Inl (PyException no_valid_data))
      \<and> vae_model (fst (train_start self w ir)) = vae_model self)
   \<and> (\<not> (uv \<and> vd = None) \<longrightarrow>
        (\<forall>msg. snd (train self w ev perms td uv vd ne bs esl th ir sh) \<noteq> Inl (PyException msg)))
   \<and> (\<not> ir \<and> checkpoints w (model_to_use self) = None \<longrightarrow>
        train self w ev perms td uv vd ne bs esl th ir sh
          = ((self, w), Inl (ValueError ''The passed save_path is not a valid checkpoint'')))"
  using train_config_error [OF train_start_ok, of ir w self ev perms td ne bs esl th sh]
    train_start_vae_model [of self w ir]
    train_no_py [of uv vd self w ev perms td ne bs esl th ir sh]
    train_restore_error [of ir w self ev perms td uv vd ne bs esl th sh]
  by blast

text \<open>The theorem at the small instance: no validation set, one given, none requested.\<close>

theorem C7_validation_check_witness:
  "train self0 world0 ev0 perms0 adata0 True None 2 1 20 0.0025 True True
     = ((self0, world0), Inl (PyException no_valid_data))
   \<and> snd (train self0 world0 ev0 perms0 adata0 True (Some adata0) 2 1 20 0.0025 True True)
       \<noteq> Inl (PyException no_valid_data)
   \<and> snd (train self0 world0 ev0 perms0 adata0 False None 2 1 20 0.0025 True True)
       \<noteq> Inl (PyException no_valid_data)
   \<and> train self0 world0 ev0 perms0 adata0 True None 2 1 20 0.0025 False True
     = ((self0, world0), Inl (ValueError ''The passed save_path is not a valid checkpoint''))"
proof -
  have s: "fst (train_start self0 world0 True) = self0"
    by (simp add: train_start_def fixture_defs)
  have c: "checkpoints world0 (model_to_use self0) = None"
    by (simp add: world0_def)
  show ?thesis
    using C7_validation_check [of True world0 self0 ev0 perms0 adata0 2 1 20 "0.0025" True True
        "Some adata0"]
      C7_validation_check [of True world0 self0 ev0 perms0 adata0 2 1 20 "0.0025" True False None]
      C7_validation_check [of False world0 self0 ev0 perms0 adata0 2 1 20 "0.0025" True True None]
      s c
    by simp
qed

text \<open>
  C7 as stated fails: with \<^verbatim>\<open>use_validation\<close> true, no \<^verbatim>\<open>valid_data\<close>,
  \<^verbatim>\<open>initial_run\<close> false and no checkpoint at the model path, \<^verbatim>\<open>train\<close> raises the
  error of \<^verbatim>\<open>saver.restore\<close> and not the configuration error.
\<close>

theorem C7_counterexample:
  "train self0 world0 ev0 perms0 adata0 True None 2 1 20 0.0025 False True
     = ((self0, world0), Inl (ValueError ''The passed save_path is not a valid checkpoint''))"
  by (simp add: train_def train_start_def world0_def)

text \<open>
  C8 (amended). The constructor sets no \<^verbatim>\<open>decoder_model\<close> and \<^verbatim>\<open>train\<close> leaves the
  attribute as it is. On an object without it, every call of \<^verbatim>\<open>reconstruct\<close> fails with
  the \<^verbatim>\<open>AttributeError\<close>, and no call of \<^verbatim>\<open>linear_interpolation\<close> or \<^verbatim>\<open>predict\<close>
  returns a result: they fail at \<^verbatim>\<open>reconstruct\<close> at the latest, or earlier with another
  error.
\<close>

theorem C8_no_decoder_before_restore:
  "decoder_model (init xd zd kw w0) = None
   \<and> decoder_model (fst (fst (train self w ev perms td uv vd ne bs esl th ir sh))) = decoder_model self
   \<and> (decoder_model self = None \<longrightarrow>
        reconstruct self ev data u = Inl (AttributeError ''decoder_model'')
        \<and> (\<forall>r. linear_interpolation self ev e1 e2 s d n \<noteq> Inr r)
        \<and> (\<forall>r. predict self ev dr a c ad ct k \<noteq> Inr r))"
  by (simp add: init_no_decoder train_keeps_decoder reconstruct_no_decoder
      interpolation_no_decoder predict_no_decoder)

text \<open>The theorem at the small instance, which has no decoder.\<close>

theorem C8_no_decoder_before_restore_witness:
  "reconstruct self0 ev0 (KDense (A2 [[2]])) True = Inl (AttributeError ''decoder_model'')
   \<and> (\<forall>r. linear_interpolation self0 ev0 eps_zero eps_zero adata0 adata0 2 \<noteq> Inr r)
   \<and> (\<forall>r. predict self0 ev0 draws0 adata0 conds0 (Some adata0) None (ObsStr ''all'') \<noteq> Inr r)"
proof -
  have "decoder_model self0 = None"
    by (simp add: fixture_defs)
  then show ?thesis
    using C8_no_decoder_before_restore [of 1 "Some 1" kw0 net0 self0 _ ev0 _ _ _ _ _ _ _ _ _ _
        "KDense (A2 [[2]])" True eps_zero eps_zero adata0 adata0 2 draws0 adata0 conds0
        "Some adata0" None "ObsStr ''all''"]
    by simp
qed

text \<open>
  C8 as stated fails: on the object as constructed, \<^verbatim>\<open>predict\<close> with neither
  \<^verbatim>\<open>celltype_to_predict\<close> nor \<^verbatim>\<open>adata_to_predict\<close> fails with the configuration error,
  which is no \<^verbatim>\<open>AttributeError\<close>.
\<close>

theorem C8_counterexample:
  "predict self0 ev0 draws0 adata0 conds0 None None (ObsStr ''all'') = Inl (PyException none_given)
   \<and> decoder_model self0 = None"
proof -
  have "decoder_model self0 = None"
    by (simp add: fixture_defs)
  then show ?thesis
    by (simp add: predict_def subsets0 and_then_def)
qed


text \<open>
  C10. In \<^verbatim>\<open>linear_interpolation\<close> both arms of the sparsity test compute the same mean,
  so the result is the same for any test in place of \<^verbatim>\<open>sparse.issparse\<close>; and a dense
  array, which has no attribute \<^verbatim>\<open>A\<close>, makes both arms, and the call, fail with the
  same \<^verbatim>\<open>AttributeError\<close>.
\<close>

theorem C10_sparsity_test_has_no_effect:
  "average_if_sparse a = average_else a
   \<and> linear_interpolation_with test self ev eps_source eps_dest source_adata dest_adata n_steps
       = linear_interpolation self ev eps_source eps_dest source_adata dest_adata n_steps
   \<and> average_if_sparse (a\<lparr>X := DenseX m\<rparr>) = Inl (AttributeError ''A'')
   \<and> average_else (a\<lparr>X := DenseX m\<rparr>) = Inl (AttributeError ''A'')
   \<and> linear_interpolation self ev eps_source eps_dest (source_adata\<lparr>X := DenseX m\<rparr>) dest_adata
       n_steps = Inl (AttributeError ''A'')"
  by (simp add: average_branches_equal average_dense interpolation_test_irrelevant
      interpolation_dense_source)

end
